theory Spec2Isabelle
  imports Main "HOL-Library.Word"
begin

unbundle bit_operations_syntax

section \<open>IEEE-754 doubles\<close>

text \<open>
  A C++ \<open>double\<close> (and a Lua number, which is a \<open>double\<close>) is its 64-bit pattern:
  bit 63 is the sign, bits 62..52 the exponent, bits 51..0 the fraction. Only the
  comparisons of the source are defined on it (\<open>==\<close>, \<open>!=\<close>, \<open><\<close>, \<open>>=\<close>): a NaN compares
  false with everything except through \<open>!=\<close>, and the two zeros are equal. The
  subtraction of \<open>getPeriod\<close> rounds; it is a parameter of that function.
\<close>

type_synonym double = "64 word"

definition magnitude :: "double \<Rightarrow> double" where
  "magnitude d = d AND 0x7FFFFFFFFFFFFFFF"

definition is_nan :: "double \<Rightarrow> bool" where
  "is_nan d \<longleftrightarrow> 0x7FF0000000000000 < magnitude d"

definition ordkey :: "double \<Rightarrow> int" where
  "ordkey d = (if bit d 63 then - uint (magnitude d) else uint (magnitude d))"

definition deq :: "double \<Rightarrow> double \<Rightarrow> bool" where
  "deq a b \<longleftrightarrow> \<not> is_nan a \<and> \<not> is_nan b \<and> ordkey a = ordkey b"

definition dne :: "double \<Rightarrow> double \<Rightarrow> bool" where
  "dne a b \<longleftrightarrow> \<not> deq a b"

definition dlt :: "double \<Rightarrow> double \<Rightarrow> bool" where
  "dlt a b \<longleftrightarrow> \<not> is_nan a \<and> \<not> is_nan b \<and> ordkey a < ordkey b"

definition dge :: "double \<Rightarrow> double \<Rightarrow> bool" where
  "dge a b \<longleftrightarrow> \<not> is_nan a \<and> \<not> is_nan b \<and> ordkey b \<le> ordkey a"

text \<open>The literals used below: 0.0, 1.0, 10.0, 20.0 and the quiet NaN that \<open>0/0\<close> gives.\<close>

definition d_zero :: double where "d_zero = 0"
definition d_one :: double where "d_one = 0x3FF0000000000000"
definition d_ten :: double where "d_ten = 0x4024000000000000"
definition d_twenty :: double where "d_twenty = 0x4034000000000000"
definition d_nan :: double where "d_nan = 0x7FF8000000000000"

datatype Quaterniond = Quaterniond double double double double

text \<open>\<open>Quaterniond::Identity()\<close> is (w, x, y, z) = (1, 0, 0, 0).\<close>

definition Identity :: Quaterniond where
  "Identity = Quaterniond d_one d_zero d_zero d_zero"

section \<open>The embedded Lua engine\<close>

text \<open>
  The Lua C API is a library outside this repository; it is modelled after its reference
  manual, with raw table access (no metatables). Tables and functions are references:
  a table is an address into \<open>tables\<close>, a function an identifier whose behaviour the
  parameter \<open>call\<close> gives. A behaviour sees the arguments and the script-visible memory
  and either raises an error value (\<open>Inl\<close>) or returns its results (\<open>Inr\<close>), with the
  memory as it leaves it; it cannot reach the C side of the stack.

  The stack is a list with the top at the head: index \<open>-k\<close> of the API is position
  \<open>k - 1\<close>. \<open>apiCalls\<close> and \<open>scriptCalls\<close> are ghost fields: the first counts the
  state-changing API calls, the second records every function run by \<open>lua_pcall\<close>, with
  its arguments, the latest first.
\<close>

datatype luaval =
    LNil
  | LBoolean bool
  | LNumber double
  | LString string
  | LTable nat
  | LFunction nat
  | LUserdata nat

record lua_mem =
  globals :: "string \<Rightarrow> luaval"
  tables :: "nat \<Rightarrow> luaval \<Rightarrow> luaval"
  nextTable :: nat

record lua_State =
  mem :: lua_mem
  stack :: "luaval list"
  apiCalls :: nat
  scriptCalls :: "(nat \<times> luaval list) list"

type_synonym behaviour = "nat \<Rightarrow> luaval list \<Rightarrow> lua_mem \<Rightarrow> (luaval + luaval list) \<times> lua_mem"

definition at_index :: "lua_State \<Rightarrow> nat \<Rightarrow> luaval" where
  \<comment> \<open>the value at index \<open>-k\<close>; an index outside the stack reads as nil\<close>
  "at_index L k = (if 0 < k \<and> k \<le> length (stack L) then stack L ! (k - 1) else LNil)"

definition push :: "luaval \<Rightarrow> lua_State \<Rightarrow> lua_State" where
  "push v L = L\<lparr>stack := v # stack L, apiCalls := Suc (apiCalls L)\<rparr>"

definition lua_getglobal :: "lua_State \<Rightarrow> string \<Rightarrow> lua_State" where
  "lua_getglobal L name = push (globals (mem L) name) L"

definition lua_setglobal :: "lua_State \<Rightarrow> string \<Rightarrow> lua_State" where
  "lua_setglobal L name =
     L\<lparr>mem := (mem L)\<lparr>globals := (globals (mem L))(name := at_index L 1)\<rparr>,
       stack := drop 1 (stack L), apiCalls := Suc (apiCalls L)\<rparr>"

definition lua_pushstring :: "lua_State \<Rightarrow> string \<Rightarrow> lua_State" where
  "lua_pushstring L s = push (LString s) L"

definition lua_pushnumber :: "lua_State \<Rightarrow> double \<Rightarrow> lua_State" where
  "lua_pushnumber L d = push (LNumber d) L"

definition lua_pushboolean :: "lua_State \<Rightarrow> bool \<Rightarrow> lua_State" where
  "lua_pushboolean L b = push (LBoolean b) L"

definition lua_pushvalue :: "lua_State \<Rightarrow> nat \<Rightarrow> lua_State" where
  "lua_pushvalue L k = push (at_index L k) L"

definition lua_pop :: "lua_State \<Rightarrow> nat \<Rightarrow> lua_State" where
  "lua_pop L n = L\<lparr>stack := drop n (stack L), apiCalls := Suc (apiCalls L)\<rparr>"

definition lua_newtable :: "lua_State \<Rightarrow> lua_State" where
  "lua_newtable L =
     L\<lparr>mem := (mem L)\<lparr>tables := (tables (mem L))(nextTable (mem L) := (\<lambda>k. LNil)),
                      nextTable := Suc (nextTable (mem L))\<rparr>,
       stack := LTable (nextTable (mem L)) # stack L,
       apiCalls := Suc (apiCalls L)\<rparr>"

definition rawget :: "lua_mem \<Rightarrow> luaval \<Rightarrow> luaval \<Rightarrow> luaval" where
  \<comment> \<open>\<open>t[k]\<close>; reading a field of a value that is not a table gives nil here\<close>
  "rawget m t k = (case t of LTable a \<Rightarrow> tables m a k | _ \<Rightarrow> LNil)"

definition rawset :: "lua_mem \<Rightarrow> luaval \<Rightarrow> luaval \<Rightarrow> luaval \<Rightarrow> lua_mem" where
  "rawset m t k v =
     (case t of LTable a \<Rightarrow> m\<lparr>tables := (tables m)(a := (tables m a)(k := v))\<rparr> | _ \<Rightarrow> m)"

definition lua_gettable :: "lua_State \<Rightarrow> nat \<Rightarrow> lua_State" where
  \<comment> \<open>pops the key and pushes \<open>t[key]\<close>, \<open>t\<close> the value at index \<open>-k\<close>\<close>
  "lua_gettable L k =
     L\<lparr>stack := rawget (mem L) (at_index L k) (at_index L 1) # drop 1 (stack L),
       apiCalls := Suc (apiCalls L)\<rparr>"

definition lua_settable :: "lua_State \<Rightarrow> nat \<Rightarrow> lua_State" where
  \<comment> \<open>\<open>t[key] = value\<close>, the value on top and the key below it; pops both\<close>
  "lua_settable L k =
     L\<lparr>mem := rawset (mem L) (at_index L k) (at_index L 2) (at_index L 1),
       stack := drop 2 (stack L), apiCalls := Suc (apiCalls L)\<rparr>"

definition lua_isfunction :: "lua_State \<Rightarrow> nat \<Rightarrow> bool" where
  "lua_isfunction L k = (case at_index L k of LFunction f \<Rightarrow> True | _ \<Rightarrow> False)"

definition lua_istable :: "lua_State \<Rightarrow> nat \<Rightarrow> bool" where
  "lua_istable L k = (case at_index L k of LTable a \<Rightarrow> True | _ \<Rightarrow> False)"

definition lua_tonumber :: "(string \<Rightarrow> double option) \<Rightarrow> lua_State \<Rightarrow> nat \<Rightarrow> double" where
  \<comment> \<open>a number is itself, a string is converted by the engine's parser \<open>cvt\<close> (a parameter),
      anything else is 0\<close>
  "lua_tonumber cvt L k =
     (case at_index L k of
        LNumber d \<Rightarrow> d
      | LString s \<Rightarrow> (case cvt s of Some d \<Rightarrow> d | None \<Rightarrow> d_zero)
      | _ \<Rightarrow> d_zero)"

definition adjust :: "nat \<Rightarrow> luaval list \<Rightarrow> luaval list" where
  \<comment> \<open>the results of a call, cut or padded with nil to the number asked for\<close>
  "adjust n rs = take n (rs @ replicate n LNil)"

definition lua_pcall :: "behaviour \<Rightarrow> lua_State \<Rightarrow> nat \<Rightarrow> nat \<Rightarrow> int \<times> lua_State" where
  \<comment> \<open>pops the function and its \<open>nargs\<close> arguments; on success pushes \<open>nresults\<close> results, the
      last on top, and returns 0; on an error pushes the error value and returns
      \<open>LUA_ERRRUN\<close> = 2. Calling a value that is not a function is such an error.\<close>
  "lua_pcall call L nargs nresults =
     (let args = rev (take nargs (stack L));
          rest = drop (Suc nargs) (stack L)
      in case at_index L (Suc nargs) of
           LFunction f \<Rightarrow>
             (case call f args (mem L) of
                (Inl err, m') \<Rightarrow>
                  (2, L\<lparr>mem := m', stack := err # rest, apiCalls := Suc (apiCalls L),
                        scriptCalls := (f, args) # scriptCalls L\<rparr>)
              | (Inr rs, m') \<Rightarrow>
                  (0, L\<lparr>mem := m', stack := rev (adjust nresults rs) @ rest,
                        apiCalls := Suc (apiCalls L),
                        scriptCalls := (f, args) # scriptCalls L\<rparr>))
         | _ \<Rightarrow>
             (2, L\<lparr>stack := LString ''attempt to call a non-function value'' # rest,
                   apiCalls := Suc (apiCalls L)\<rparr>))"

section \<open>The logger and the process-wide state\<close>

text \<open>
  Modelled from the spec: the logger (celutil/logger.h, not under src/) takes leveled
  diagnostic messages, warnings and errors, and does nothing else. A log entry keeps the
  level, the format string of the source and its arguments; \<open>LuaText v\<close> stands for the
  text \<open>lua_tostring\<close> gives for the Lua value \<open>v\<close>. How that text is rendered, also for
  an error value that is neither a string nor a number, is left to the logger.
\<close>

datatype level = Warn | Err

datatype fmtarg = Text string | LuaText luaval

type_synonym logentry = "level \<times> string \<times> fmtarg list"

text \<open>
  Modelled from the spec: the parameters (\<open>Hash\<close>, not under src/) are an ordered mapping
  from names to scalar or string values.
\<close>

datatype hashval = HNumber double | HString string | HBoolean bool

type_synonym Hash = "(string \<times> hashval) list"

record world =
  scriptContext :: "lua_State option"
  logger :: "logentry list"
  objectCount :: nat

definition logmsg :: "level \<Rightarrow> string \<Rightarrow> fmtarg list \<Rightarrow> world \<Rightarrow> world" where
  "logmsg lv fmt args w = w\<lparr>logger := logger w @ [(lv, fmt, args)]\<rparr>"

text \<open>
  Modelled from the spec: \<open>GetScriptedObjectContext\<close> (scriptobject.h, not under src/) is
  the process-wide handle to the single engine instance, absent when the engine is
  unavailable.
\<close>

definition GetScriptedObjectContext :: "world \<Rightarrow> lua_State option" where
  "GetScriptedObjectContext w = scriptContext w"

text \<open>
  Modelled from the spec: \<open>GenerateScriptObjectName\<close> (scriptobject.h, not under src/)
  gives a freshly generated name; handles are generated monotonically and never reused.
  The spec fixes no format: \<open>gen\<close> maps the counter to the name.
\<close>

definition GenerateScriptObjectName :: "(nat \<Rightarrow> string) \<Rightarrow> world \<Rightarrow> string \<times> world" where
  "GenerateScriptObjectName gen w = (gen (objectCount w), w\<lparr>objectCount := Suc (objectCount w)\<rparr>)"

text \<open>
  Modelled from the spec: \<open>SetLuaVariables\<close> (scriptobject.h, not under src/) forwards
  the declared parameters verbatim into the table on top of the stack, in their order.
\<close>

definition pushhashval :: "lua_State \<Rightarrow> hashval \<Rightarrow> lua_State" where
  "pushhashval L v =
     (case v of HNumber d \<Rightarrow> lua_pushnumber L d
              | HString s \<Rightarrow> lua_pushstring L s
              | HBoolean b \<Rightarrow> lua_pushboolean L b)"

fun SetLuaVariables :: "lua_State \<Rightarrow> Hash \<Rightarrow> lua_State" where
  "SetLuaVariables L [] = L"
| "SetLuaVariables L ((key, v) # kvs) =
     SetLuaVariables (lua_settable (pushhashval (lua_pushstring L key) v) 3) kvs"

text \<open>
  Modelled from the spec: \<open>SafeGetLuaNumber\<close> (scriptobject.h, not under src/) reads an
  optional numeric field of the table at index \<open>-k\<close>, with a default when it is absent,
  and leaves the stack as it found it.
\<close>

definition SafeGetLuaNumber :: "lua_State \<Rightarrow> nat \<Rightarrow> string \<Rightarrow> double \<Rightarrow> double" where
  "SafeGetLuaNumber L k key dflt =
     (case rawget (mem L) (at_index L k) (LString key) of LNumber d \<Rightarrow> d | _ \<Rightarrow> dflt)"

section \<open>ScriptedRotation\<close>

text \<open>
  The fields of the class (scriptrotation.h is not under src/). \<open>luaState\<close> is the
  pointer to the shared engine: True when it is not null.
\<close>

record ScriptedRotation =
  luaState :: bool
  luaRotationObjectName :: string
  period :: double
  validRangeBegin :: double
  validRangeEnd :: double
  lastTime :: double
  lastOrientation :: Quaterniond
  cacheable :: bool

text \<open>
  Modelled from the spec: a model before \<open>initialize\<close> has period 0, valid range 0/0,
  \<open>cacheable\<close> true and the identity as cached result. The spec does not give the first
  \<open>lastEvaluatedTime\<close>: it is the parameter \<open>t0\<close>.
\<close>

definition newRotation :: "double \<Rightarrow> ScriptedRotation" where
  "newRotation t0 =
     \<lparr>luaState = False, luaRotationObjectName = [], period = d_zero,
      validRangeBegin = d_zero, validRangeEnd = d_zero, lastTime = t0,
      lastOrientation = Identity, cacheable = True\<rparr>"

subsection \<open>initialize\<close>

text \<open>
  Lines 59 to 76: the optional \<open>require\<close> of the module. The result says whether
  construction goes on.
\<close>

definition initialize_module ::
  "behaviour \<Rightarrow> string option \<Rightarrow> lua_State \<Rightarrow> world \<Rightarrow> bool \<times> lua_State \<times> world" where
  "initialize_module call moduleName L w =
     (if moduleName \<noteq> None \<and> the moduleName \<noteq> [] then
        (let L1 = lua_getglobal L ''require'' in
         if \<not> lua_isfunction L1 1 then
           (False, lua_pop L1 1,
            logmsg Err ''Cannot load ScriptedRotation package: 'require' function is unavailable\<newline>'' [] w)
         else
           (let L2 = lua_pushstring L1 (the moduleName);
                (rc, L3) = lua_pcall call L2 1 1
            in if rc \<noteq> 0 then
                 (False, lua_pop L3 1,
                  logmsg Err ''Failed to load module for ScriptedRotation: {}\<newline>''
                    [LuaText (at_index L3 1)] w)
               else (True, L3, w)))
      else (True, L, w))"

text \<open>
  Lines 90 to 100: the table passed to the generator function, the declared parameters
  and the \<open>AddonPath\<close> entry.
\<close>

definition build_parameters :: "lua_State \<Rightarrow> Hash \<Rightarrow> string \<Rightarrow> lua_State" where
  "build_parameters L parameters path =
     (let L2 = lua_newtable L;
          L3 = SetLuaVariables L2 parameters
      in lua_settable (lua_pushstring (lua_pushstring L3 ''AddonPath'') path) 3)"

text \<open>Lines 78 to 141: the factory call, the registration and the sanity check.\<close>

definition initialize_object ::
  "behaviour \<Rightarrow> (nat \<Rightarrow> string) \<Rightarrow> string \<Rightarrow> Hash \<Rightarrow> string \<Rightarrow> ScriptedRotation \<Rightarrow> lua_State \<Rightarrow> world
     \<Rightarrow> bool \<times> ScriptedRotation \<times> lua_State \<times> world" where
  "initialize_object call gen funcName parameters path r L w =
     (let L1 = lua_getglobal L funcName in
      if \<not> lua_isfunction L1 1 then
        (False, r, lua_pop L1 1, logmsg Err ''No Lua function named {} found.\<newline>'' [Text funcName] w)
      else
        (let L4 = build_parameters L1 parameters path;
             (rc, L5) = lua_pcall call L4 1 1
         in if rc \<noteq> 0 then
              (False, r, lua_pop L5 1,
               logmsg Err ''Error calling ScriptedRotation generator function: {}\<newline>''
                 [LuaText (at_index L5 1)] w)
            else if \<not> lua_istable L5 1 then
              (False, r, lua_pop L5 1,
               logmsg Err ''ScriptedRotation generator function returned bad value.\<newline>'' [] w)
            else
              (let (name, w1) = GenerateScriptObjectName gen w;
                   L6 = lua_setglobal (lua_pushvalue L5 1) name;
                   r1 = r\<lparr>luaRotationObjectName := name,
                          period := SafeGetLuaNumber L6 1 ''period'' d_zero,
                          validRangeBegin := SafeGetLuaNumber L6 1 ''beginDate'' d_zero,
                          validRangeEnd := SafeGetLuaNumber L6 1 ''endDate'' d_zero\<rparr>;
                   L7 = lua_pop L6 1
               in if dlt (validRangeEnd r1) (validRangeBegin r1) then
                    (False, r1, L7, logmsg Err ''Bad script rotation: valid range end < begin\<newline>'' [] w1)
                  else (True, r1, L7, w1))))"

definition initialize ::
  "behaviour \<Rightarrow> (nat \<Rightarrow> string) \<Rightarrow> string option \<Rightarrow> string \<Rightarrow> Hash option \<Rightarrow> string
     \<Rightarrow> ScriptedRotation \<Rightarrow> world \<Rightarrow> bool \<times> ScriptedRotation \<times> world" where
  "initialize call gen moduleName funcName parameters path r w =
     (case parameters of
        None \<Rightarrow> (False, r, w)
      | Some params \<Rightarrow>
          (case GetScriptedObjectContext w of
             None \<Rightarrow>
               (False, r\<lparr>luaState := False\<rparr>,
                logmsg Warn ''ScriptedRotations are currently disabled.\<newline>'' [] w)
           | Some L \<Rightarrow>
               (let r0 = r\<lparr>luaState := True\<rparr>;
                    (ok, L1, w1) = initialize_module call moduleName L w
                in if \<not> ok then (False, r0, w1\<lparr>scriptContext := Some L1\<rparr>)
                   else
                     (let (res, r1, L2, w2) =
                            initialize_object call gen funcName params path r0 L1 w1
                      in (res, r1, w2\<lparr>scriptContext := Some L2\<rparr>)))))"

subsection \<open>spin\<close>

text \<open>
  The result is None where the source dereferences a null \<open>luaState\<close> (a model that was
  never constructed, or an engine that is gone): undefined behaviour in C++.
\<close>

definition spin ::
  "behaviour \<Rightarrow> (string \<Rightarrow> double option) \<Rightarrow> ScriptedRotation \<Rightarrow> double \<Rightarrow> world
     \<Rightarrow> (Quaterniond \<times> ScriptedRotation \<times> world) option" where
  "spin call cvt r tjd w =
     (if dne tjd (lastTime r) \<or> \<not> cacheable r then
        (case (if luaState r then scriptContext w else None) of
           None \<Rightarrow> None
         | Some L \<Rightarrow>
             (let L1 = lua_getglobal L (luaRotationObjectName r);
                  (r', L', w') =
                    (if lua_istable L1 1 then
                       (let L2 = lua_gettable (lua_pushstring L1 ''orientation'') 2 in
                        if lua_isfunction L2 1 then
                          (let L3 = lua_pushnumber (lua_pushvalue L2 2) tjd;
                               (rc, L4) = lua_pcall call L3 2 4
                           in if rc = 0 then
                                (r\<lparr>lastOrientation :=
                                     Quaterniond (lua_tonumber cvt L4 4) (lua_tonumber cvt L4 3)
                                                 (lua_tonumber cvt L4 2) (lua_tonumber cvt L4 1),
                                   lastTime := tjd\<rparr>,
                                 lua_pop L4 4, w)
                              else
                                (r, lua_pop L4 1,
                                 logmsg Warn ''ScriptedRotation failed: {}\<newline>''
                                   [LuaText (at_index L4 1)] w))
                        else (r, lua_pop L2 1, w))
                     else (r, L1, w))
              in Some (lastOrientation r', r', w'\<lparr>scriptContext := Some (lua_pop L' 1)\<rparr>)))
      else Some (lastOrientation r, r, w))"

subsection \<open>The derived queries\<close>

definition getPeriod :: "(double \<Rightarrow> double \<Rightarrow> double) \<Rightarrow> ScriptedRotation \<Rightarrow> double" where
  \<comment> \<open>\<open>sub\<close> is the subtraction of doubles\<close>
  "getPeriod sub r =
     (if deq (period r) d_zero then sub (validRangeEnd r) (validRangeBegin r) else period r)"

definition isPeriodic :: "ScriptedRotation \<Rightarrow> bool" where
  "isPeriodic r = dne (period r) d_zero"

definition getValidRange :: "ScriptedRotation \<Rightarrow> double \<times> double" where
  \<comment> \<open>the two out-parameters \<open>begin\<close> and \<open>end\<close>, as a pair\<close>
  "getValidRange r = (validRangeBegin r, validRangeEnd r)"

section \<open>Observations used to state the properties\<close>

text \<open>
  What \<open>spin\<close> finds when it looks the registered object up: nothing that is a table
  (the object vanished), a table whose \<open>orientation\<close> field is not a function, or a
  table \<open>t\<close> with the function \<open>f\<close> in that field.
\<close>

datatype lookup = Vanished | BadOrientation | Callable nat nat

definition orientation_lookup :: "lua_mem \<Rightarrow> string \<Rightarrow> lookup" where
  "orientation_lookup m name =
     (case globals m name of
        LTable t \<Rightarrow>
          (case tables m t (LString ''orientation'') of
             LFunction f \<Rightarrow> Callable t f
           | _ \<Rightarrow> BadOrientation)
      | _ \<Rightarrow> Vanished)"

text \<open>Evaluating at a list of times in a row, with nothing else touching the engine.\<close>

fun spin_all ::
  "behaviour \<Rightarrow> (string \<Rightarrow> double option) \<Rightarrow> double list \<Rightarrow> ScriptedRotation \<Rightarrow> world
     \<Rightarrow> (Quaterniond list \<times> ScriptedRotation \<times> world) option" where
  "spin_all call cvt [] r w = Some ([], r, w)"
| "spin_all call cvt (t # ts) r w =
     (case spin call cvt r t w of
        None \<Rightarrow> None
      | Some (q, r1, w1) \<Rightarrow>
          (case spin_all call cvt ts r1 w1 of
             None \<Rightarrow> None
           | Some (qs, r2, w2) \<Rightarrow> Some (q # qs, r2, w2)))"

definition script_calls :: "world \<Rightarrow> (nat \<times> luaval list) list" where
  "script_calls w = (case scriptContext w of None \<Rightarrow> [] | Some L \<Rightarrow> scriptCalls L)"

definition api_calls :: "world \<Rightarrow> nat" where
  "api_calls w = (case scriptContext w of None \<Rightarrow> 0 | Some L \<Rightarrow> apiCalls L)"

definition engine_stack :: "world \<Rightarrow> luaval list" where
  "engine_stack w = (case scriptContext w of None \<Rightarrow> [] | Some L \<Rightarrow> stack L)"

definition global_value :: "world \<Rightarrow> string \<Rightarrow> luaval" where
  "global_value w name = (case scriptContext w of None \<Rightarrow> LNil | Some L \<Rightarrow> globals (mem L) name)"

definition optional_number :: "luaval \<Rightarrow> double" where
  "optional_number v = (case v of LNumber d \<Rightarrow> d | _ \<Rightarrow> d_zero)"

text \<open>The log and the recorded script calls in the result of an evaluation.\<close>

definition log_after :: "('a \<times> ScriptedRotation \<times> world) option \<Rightarrow> logentry list option" where
  "log_after x = map_option (\<lambda>(q, r, w). logger w) x"

definition calls_after :: "('a \<times> ScriptedRotation \<times> world) option \<Rightarrow> (nat \<times> luaval list) list option" where
  "calls_after x = map_option (\<lambda>(q, r, w). script_calls w) x"

section \<open>Example scripts\<close>

text \<open>
  A small script universe for the concrete evaluations. Function 0 is the factory
  \<open>makeSpin\<close>, returning \<open>{period = 1.0, orientation = function 1}\<close>; function 1 returns
  the identity quaternion; function 2 raises the error \<open>boom\<close>; function 3 is a factory
  returning \<open>{beginDate = 20, endDate = 10}\<close>; function 4 a factory returning
  \<open>{beginDate = 0/0}\<close>; function 5 is \<open>require\<close>, loading any module; function 6 a
  factory returning the empty table; function 7 a factory returning
  \<open>{orientation = function 2}\<close>.
\<close>

definition new_table :: "lua_mem \<Rightarrow> (luaval \<Rightarrow> luaval) \<Rightarrow> (luaval + luaval list) \<times> lua_mem" where
  "new_table m fs =
     (Inr [LTable (nextTable m)],
      m\<lparr>tables := (tables m)(nextTable m := fs), nextTable := Suc (nextTable m)\<rparr>)"

definition demo_call :: behaviour where
  "demo_call f args m =
     (if f = 0 then
        new_table m ((\<lambda>k. LNil)(LString ''period'' := LNumber d_one,
                                   LString ''orientation'' := LFunction 1))
      else if f = 1 then (Inr [LNumber d_one, LNumber d_zero, LNumber d_zero, LNumber d_zero], m)
      else if f = 2 then (Inl (LString ''boom''), m)
      else if f = 3 then
        new_table m ((\<lambda>k. LNil)(LString ''beginDate'' := LNumber d_twenty,
                                   LString ''endDate'' := LNumber d_ten))
      else if f = 4 then new_table m ((\<lambda>k. LNil)(LString ''beginDate'' := LNumber d_nan))
      else if f = 5 then (Inr [LBoolean True], m)
      else if f = 6 then new_table m (\<lambda>k. LNil)
      else if f = 7 then new_table m ((\<lambda>k. LNil)(LString ''orientation'' := LFunction 2))
      else (Inr [], m))"

definition demo_mem :: lua_mem where
  "demo_mem =
     \<lparr>globals = (\<lambda>n. LNil)(''makeSpin'' := LFunction 0, ''require'' := LFunction 5,
                               ''badRange'' := LFunction 3, ''nanRange'' := LFunction 4,
                               ''noOrientation'' := LFunction 6, ''failing'' := LFunction 7),
      tables = (\<lambda>a k. LNil), nextTable = 0\<rparr>"

definition demo_state :: lua_State where
  "demo_state = \<lparr>mem = demo_mem, stack = [], apiCalls = 0, scriptCalls = []\<rparr>"

definition demo_world :: world where
  "demo_world = \<lparr>scriptContext = Some demo_state, logger = [], objectCount = 0\<rparr>"

definition demo_gen :: "nat \<Rightarrow> string" where
  "demo_gen n = ''cel_script_object_'' @ replicate n (CHR ''I'')"

definition d_far_past :: double where
  \<comment> \<open>-1.0e50\<close>
  "d_far_past = 0xCA511B0EC57E649A"

definition demo_rotation :: ScriptedRotation where
  \<comment> \<open>a model bound to the first generated name, nothing evaluated yet\<close>
  "demo_rotation = (newRotation d_far_past)\<lparr>luaState := True, luaRotationObjectName := demo_gen 0\<rparr>"

definition registered_world :: "nat \<Rightarrow> world" where
  \<comment> \<open>the engine with the table \<open>{orientation = function f}\<close> registered under the first name\<close>
  "registered_world f =
     demo_world\<lparr>scriptContext := Some (demo_state\<lparr>mem :=
       demo_mem\<lparr>globals := (globals demo_mem)(demo_gen 0 := LTable 0),
                tables := (tables demo_mem)(0 := (\<lambda>k. LNil)(LString ''orientation'' := LFunction f)),
                nextTable := 1\<rparr>\<rparr>)\<rparr>"

definition demo_params :: Hash where
  \<comment> \<open>the declared parameters of the examples\<close>
  "demo_params = [(''axis'', HString ''z'')]"

definition demo_cvt :: "string \<Rightarrow> double option" where
  "demo_cvt s = None"

definition demo_sub :: "double \<Rightarrow> double \<Rightarrow> double" where
  \<comment> \<open>the one difference the examples need: 20.0 - 10.0 = 10.0\<close>
  "demo_sub a b = (if a = d_twenty \<and> b = d_ten then d_ten else d_nan)"

section \<open>Doubles\<close>

lemma deq_refl: "\<not> is_nan a \<Longrightarrow> deq a a"
  by (simp add: deq_def)

lemma not_dlt_dge: "\<not> is_nan a \<Longrightarrow> \<not> is_nan b \<Longrightarrow> \<not> dlt a b \<Longrightarrow> dge a b"
  by (simp add: dlt_def dge_def)

lemmas double_eval = deq_def dne_def dlt_def dge_def is_nan_def magnitude_def ordkey_def
  d_zero_def d_one_def d_ten_def d_twenty_def d_nan_def d_far_past_def

section \<open>The four outcomes of a cache miss in spin\<close>

lemmas lua_defs = at_index_def push_def lua_getglobal_def lua_setglobal_def lua_pushstring_def
  lua_pushnumber_def lua_pushboolean_def lua_pushvalue_def lua_pop_def lua_newtable_def
  rawget_def rawset_def lua_gettable_def lua_settable_def lua_isfunction_def lua_istable_def
  lua_pcall_def

lemma length_adjust: "length (adjust n rs) = n"
  by (simp add: adjust_def)

lemma spin_cached:
  "deq tjd (lastTime r) \<Longrightarrow> cacheable r \<Longrightarrow> spin call cvt r tjd w = Some (lastOrientation r, r, w)"
  by (simp add: spin_def dne_def)

lemma spin_null:
  "dne tjd (lastTime r) \<or> \<not> cacheable r \<Longrightarrow> \<not> luaState r \<or> scriptContext w = None
     \<Longrightarrow> spin call cvt r tjd w = None"
  by (auto simp add: spin_def)

lemma spin_vanished:
  assumes "dne tjd (lastTime r) \<or> \<not> cacheable r" "luaState r" "scriptContext w = Some L"
    and "orientation_lookup (mem L) (luaRotationObjectName r) = Vanished"
  shows "spin call cvt r tjd w =
     Some (lastOrientation r, r, w\<lparr>scriptContext := Some (L\<lparr>apiCalls := apiCalls L + 2\<rparr>)\<rparr>)"
  using assms
  by (auto simp add: spin_def orientation_lookup_def lua_defs Let_def split: luaval.splits)

lemma spin_bad_orientation:
  assumes "dne tjd (lastTime r) \<or> \<not> cacheable r" "luaState r" "scriptContext w = Some L"
    and "orientation_lookup (mem L) (luaRotationObjectName r) = BadOrientation"
  shows "spin call cvt r tjd w =
     Some (lastOrientation r, r, w\<lparr>scriptContext := Some (L\<lparr>apiCalls := apiCalls L + 5\<rparr>)\<rparr>)"
  using assms
  by (auto simp add: spin_def orientation_lookup_def lua_defs Let_def split: luaval.splits)

lemma spin_call_error:
  assumes "dne tjd (lastTime r) \<or> \<not> cacheable r" "luaState r" "scriptContext w = Some L"
    and "orientation_lookup (mem L) (luaRotationObjectName r) = Callable t f"
    and "call f [LTable t, LNumber tjd] (mem L) = (Inl err, m')"
  shows "spin call cvt r tjd w =
     Some (lastOrientation r, r,
           w\<lparr>logger := logger w @ [(Warn, ''ScriptedRotation failed: {}\<newline>'', [LuaText err])],
             scriptContext := Some (L\<lparr>mem := m', apiCalls := apiCalls L + 8,
                scriptCalls := (f, [LTable t, LNumber tjd]) # scriptCalls L\<rparr>)\<rparr>)"
  using assms
  by (auto simp add: spin_def orientation_lookup_def lua_defs logmsg_def Let_def
           split: luaval.splits)

lemma spin_call_ok:
  assumes miss: "dne tjd (lastTime r) \<or> \<not> cacheable r" and ls: "luaState r"
    and ctx: "scriptContext w = Some L"
    and lk: "orientation_lookup (mem L) (luaRotationObjectName r) = Callable t f"
    and c: "call f [LTable t, LNumber tjd] (mem L) = (Inr rs, m')"
    and L4: "L4 = L\<lparr>mem := m', stack := rev (adjust 4 rs) @ LTable t # stack L,
                     apiCalls := apiCalls L + 6,
                     scriptCalls := (f, [LTable t, LNumber tjd]) # scriptCalls L\<rparr>"
    and q: "q = Quaterniond (lua_tonumber cvt L4 4) (lua_tonumber cvt L4 3)
                            (lua_tonumber cvt L4 2) (lua_tonumber cvt L4 1)"
  shows "spin call cvt r tjd w =
     Some (q, r\<lparr>lastOrientation := q, lastTime := tjd\<rparr>,
           w\<lparr>scriptContext := Some (L\<lparr>mem := m', apiCalls := apiCalls L + 8,
                scriptCalls := (f, [LTable t, LNumber tjd]) # scriptCalls L\<rparr>)\<rparr>)"
proof -
  let ?name = "luaRotationObjectName r"
  from lk have g: "globals (mem L) ?name = LTable t"
    and o: "tables (mem L) t (LString ''orientation'') = LFunction f"
    by (auto simp add: orientation_lookup_def split: luaval.splits)
  define L3 where
    "L3 = lua_pushnumber (lua_pushvalue (lua_gettable (lua_pushstring (lua_getglobal L ?name)
            ''orientation'') 2) 2) tjd"
  have L3: "L3 = L\<lparr>stack := LNumber tjd # LTable t # LFunction f # LTable t # stack L,
                      apiCalls := apiCalls L + 5\<rparr>"
    by (simp add: L3_def lua_defs g o)
  have pc: "lua_pcall call L3 2 4 = (0, L4)"
    by (simp add: L3 L4 lua_pcall_def at_index_def c)
  have pop: "lua_pop (lua_pop L4 4) (Suc 0) =
               L\<lparr>mem := m', apiCalls := apiCalls L + 8,
                 scriptCalls := (f, [LTable t, LNumber tjd]) # scriptCalls L\<rparr>"
    by (simp add: L4 lua_pop_def length_adjust)
  have t1: "lua_istable (lua_getglobal L ?name) (Suc 0)"
    by (simp add: lua_defs g)
  have t2: "lua_isfunction (lua_gettable (lua_pushstring (lua_getglobal L ?name)
              ''orientation'') 2) (Suc 0)"
    by (simp add: lua_defs g o)
  show ?thesis
    using miss ls ctx
    by (simp add: spin_def Let_def t1 t2 L3_def [symmetric] pc pop q)
qed

section \<open>The example scripts, looked up\<close>

lemma lookup_demo_vanished:
  "orientation_lookup demo_mem (demo_gen 0) = Vanished"
  by (simp add: orientation_lookup_def demo_mem_def demo_gen_def)

lemma lookup_registered:
  "scriptContext (registered_world f) = Some L \<Longrightarrow>
     orientation_lookup (mem L) (demo_gen 0) = Callable 0 f"
  by (auto simp add: registered_world_def orientation_lookup_def demo_world_def demo_state_def demo_mem_def)

lemma demo_rotation_miss: "dne d_zero (lastTime demo_rotation)"
  by (simp add: demo_rotation_def newRotation_def double_eval)

lemma spin_miss_api:
  assumes miss: "dne tjd (lastTime r) \<or> \<not> cacheable r" and ls: "luaState r"
    and ctx: "scriptContext w = Some L"
  shows "\<exists>q r' w'. spin call cvt r tjd w = Some (q, r', w') \<and> api_calls w < api_calls w'
           \<and> (\<forall>t f. orientation_lookup (mem L) (luaRotationObjectName r) = Callable t f
                 \<longrightarrow> script_calls w' = (f, [LTable t, LNumber tjd]) # script_calls w)"
proof (cases "orientation_lookup (mem L) (luaRotationObjectName r)")
  case Vanished
  then show ?thesis
    using spin_vanished [OF miss ls ctx] ctx by (simp add: api_calls_def)
next
  case BadOrientation
  then show ?thesis
    using spin_bad_orientation [OF miss ls ctx] ctx by (simp add: api_calls_def)
next
  case (Callable t f)
  obtain res m' where c: "call f [LTable t, LNumber tjd] (mem L) = (res, m')"
    by (cases "call f [LTable t, LNumber tjd] (mem L)")
  show ?thesis
  proof (cases res)
    case (Inl err)
    with c Callable show ?thesis
      using spin_call_error [where call = call, OF miss ls ctx] ctx
      by (simp add: api_calls_def script_calls_def)
  next
    case (Inr rs)
    with c Callable show ?thesis
      using spin_call_ok [where call = call and cvt = cvt, OF miss ls ctx _ _ refl refl] ctx
      by (simp add: api_calls_def script_calls_def)
  qed
qed

section \<open>Evaluation: soft failure and success\<close>

text \<open>
  C1. A constructed model has a non-null \<open>luaState\<close>. When the registered object is
  missing from the global namespace (or is no table), or its \<open>orientation\<close> field is
  absent or not a function, or the orientation call raises a runtime error, \<open>spin\<close>
  returns a value (nothing is raised): the previous cached result, with the model,
  \<open>lastOrientation\<close> and \<open>lastTime\<close> included, unchanged. For a model that never
  computed anything the cached result is the identity, as in the example below it.
\<close>

theorem spin_soft_fail:
  assumes "luaState r" and "scriptContext w = Some L"
    and "orientation_lookup (mem L) (luaRotationObjectName r) = Vanished
         \<or> orientation_lookup (mem L) (luaRotationObjectName r) = BadOrientation
         \<or> (\<exists>t f err m'. orientation_lookup (mem L) (luaRotationObjectName r) = Callable t f
                \<and> call f [LTable t, LNumber tjd] (mem L) = (Inl err, m'))"
  shows "\<exists>w'. spin call cvt r tjd w = Some (lastOrientation r, r, w')"
proof (cases "dne tjd (lastTime r) \<or> \<not> cacheable r")
  case False
  then show ?thesis by (simp add: spin_cached dne_def)
next
  case True
  from assms(3) show ?thesis
  proof (elim disjE exE conjE)
    assume "orientation_lookup (mem L) (luaRotationObjectName r) = Vanished"
    then show ?thesis using spin_vanished [OF True assms(1,2)] by simp
  next
    assume "orientation_lookup (mem L) (luaRotationObjectName r) = BadOrientation"
    then show ?thesis using spin_bad_orientation [OF True assms(1,2)] by simp
  next
    fix t f err m'
    assume "orientation_lookup (mem L) (luaRotationObjectName r) = Callable t f"
      and "call f [LTable t, LNumber tjd] (mem L) = (Inl err, m')"
    then show ?thesis using spin_call_error [where call = call, OF True assms(1,2)] by simp
  qed
qed

theorem spin_soft_fail_witness:
  "luaState demo_rotation \<and> scriptContext demo_world = Some demo_state
   \<and> orientation_lookup (mem demo_state) (luaRotationObjectName demo_rotation) = Vanished
   \<and> (\<exists>w'. spin demo_call demo_cvt demo_rotation d_zero demo_world
              = Some (Identity, demo_rotation, w'))"
proof -
  have a: "luaState demo_rotation" by (simp add: demo_rotation_def)
  have b: "scriptContext demo_world = Some demo_state" by (simp add: demo_world_def)
  have c: "orientation_lookup (mem demo_state) (luaRotationObjectName demo_rotation) = Vanished"
    by (simp add: demo_state_def demo_rotation_def lookup_demo_vanished)
  have d: "lastOrientation demo_rotation = Identity" by (simp add: demo_rotation_def newRotation_def)
  from spin_soft_fail [OF a b, of demo_call d_zero demo_cvt] c d a b show ?thesis by simp
qed

text \<open>
  C5. On a cache miss that finds the registered table \<open>t\<close> with a function \<open>f\<close> in its
  \<open>orientation\<close> field, \<open>spin\<close> runs \<open>f\<close> with the arguments (self, time); when the
  call returns four numbers they are the components (w, x, y, z) of the quaternion that
  is stored into \<open>lastOrientation\<close> and returned, and \<open>lastTime\<close> becomes the evaluated
  time.
\<close>

theorem spin_success:
  assumes "dne tjd (lastTime r) \<or> \<not> cacheable r" and "luaState r" and "scriptContext w = Some L"
    and "orientation_lookup (mem L) (luaRotationObjectName r) = Callable t f"
    and "call f [LTable t, LNumber tjd] (mem L) = (Inr [LNumber qw, LNumber qx, LNumber qy, LNumber qz], m')"
  shows "\<exists>w'. spin call cvt r tjd w =
            Some (Quaterniond qw qx qy qz,
                  r\<lparr>lastOrientation := Quaterniond qw qx qy qz, lastTime := tjd\<rparr>, w')
          \<and> script_calls w' = (f, [LTable t, LNumber tjd]) # script_calls w"
  using spin_call_ok [where call = call and cvt = cvt, OF assms refl refl] assms(3)
  by (simp add: script_calls_def lua_tonumber_def at_index_def adjust_def)

theorem spin_success_witness:
  "(dne d_zero (lastTime demo_rotation) \<or> \<not> cacheable demo_rotation)
   \<and> luaState demo_rotation
   \<and> (\<exists>w'. spin demo_call demo_cvt demo_rotation d_zero (registered_world 1) =
            Some (Identity, demo_rotation\<lparr>lastOrientation := Identity, lastTime := d_zero\<rparr>, w')
          \<and> script_calls w' = [(1, [LTable 0, LNumber d_zero])])"
proof -
  have a: "dne d_zero (lastTime demo_rotation) \<or> \<not> cacheable demo_rotation"
    by (simp add: demo_rotation_def newRotation_def double_eval)
  have b: "luaState demo_rotation" by (simp add: demo_rotation_def)
  obtain L where c: "scriptContext (registered_world 1) = Some L"
    by (simp add: registered_world_def)
  have d: "orientation_lookup (mem L) (luaRotationObjectName demo_rotation) = Callable 0 1"
    using lookup_registered [OF c] by (simp add: demo_rotation_def)
  have e: "demo_call 1 [LTable 0, LNumber d_zero] (mem L) =
             (Inr [LNumber d_one, LNumber d_zero, LNumber d_zero, LNumber d_zero], mem L)"
    by (simp add: demo_call_def)
  have f: "script_calls (registered_world 1) = []"
    by (simp add: script_calls_def registered_world_def demo_state_def)
  from spin_success [where call = demo_call and cvt = demo_cvt, OF a b c d e] a b f
  show ?thesis by (simp add: Identity_def)
qed

text \<open>
  C9. With \<open>cacheable\<close> false every call of \<open>spin\<close> on a constructed model goes to the
  engine, also at a time equal to \<open>lastTime\<close>: it looks the registered object up and, when
  the object and its \<open>orientation\<close> function are there, runs that function with
  (self, time). The result is then the one the function gives: on an error the cached
  value, the model unchanged, the error logged and the engine memory as the function
  left it; on success the quaternion read from the four results, stored with the time,
  and the engine memory as the function left it. Without a table, or without a function
  in \<open>orientation\<close>, the cached value is returned after the lookup alone. The engine is
  left untouched exactly when the time equals \<open>lastTime\<close> and \<open>cacheable\<close> is true.
\<close>

theorem spin_not_cacheable:
  "(\<not> cacheable r \<and> luaState r \<and> scriptContext w = Some L \<longrightarrow>
      (\<exists>q r' w'. spin call cvt r tjd w = Some (q, r', w') \<and> api_calls w < api_calls w'
         \<and> (\<forall>t f. orientation_lookup (mem L) (luaRotationObjectName r) = Callable t f
               \<longrightarrow> script_calls w' = (f, [LTable t, LNumber tjd]) # script_calls w))
      \<and> (orientation_lookup (mem L) (luaRotationObjectName r) = Vanished \<longrightarrow>
           spin call cvt r tjd w =
             Some (lastOrientation r, r,
                   w\<lparr>scriptContext := Some (L\<lparr>apiCalls := apiCalls L + 2\<rparr>)\<rparr>))
      \<and> (orientation_lookup (mem L) (luaRotationObjectName r) = BadOrientation \<longrightarrow>
           spin call cvt r tjd w =
             Some (lastOrientation r, r,
                   w\<lparr>scriptContext := Some (L\<lparr>apiCalls := apiCalls L + 5\<rparr>)\<rparr>))
      \<and> (\<forall>t f err m'.
            orientation_lookup (mem L) (luaRotationObjectName r) = Callable t f
            \<and> call f [LTable t, LNumber tjd] (mem L) = (Inl err, m') \<longrightarrow>
            spin call cvt r tjd w =
              Some (lastOrientation r, r,
                    w\<lparr>logger := logger w @
                         [(Warn, ''ScriptedRotation failed: {}\<newline>'', [LuaText err])],
                      scriptContext := Some (L\<lparr>mem := m', apiCalls := apiCalls L + 8,
                         scriptCalls := (f, [LTable t, LNumber tjd]) # scriptCalls L\<rparr>)\<rparr>))
      \<and> (\<forall>t f rs m' L4 q.
            orientation_lookup (mem L) (luaRotationObjectName r) = Callable t f
            \<and> call f [LTable t, LNumber tjd] (mem L) = (Inr rs, m')
            \<and> L4 = L\<lparr>mem := m', stack := rev (adjust 4 rs) @ LTable t # stack L,
                       apiCalls := apiCalls L + 6,
                       scriptCalls := (f, [LTable t, LNumber tjd]) # scriptCalls L\<rparr>
            \<and> q = Quaterniond (lua_tonumber cvt L4 4) (lua_tonumber cvt L4 3)
                               (lua_tonumber cvt L4 2) (lua_tonumber cvt L4 1) \<longrightarrow>
            spin call cvt r tjd w =
              Some (q, r\<lparr>lastOrientation := q, lastTime := tjd\<rparr>,
                    w\<lparr>scriptContext := Some (L\<lparr>mem := m', apiCalls := apiCalls L + 8,
                         scriptCalls := (f, [LTable t, LNumber tjd]) # scriptCalls L\<rparr>)\<rparr>)))
   \<and> ((\<exists>q r'. spin call cvt r tjd w = Some (q, r', w)) \<longleftrightarrow> deq tjd (lastTime r) \<and> cacheable r)"
proof (rule conjI)
  show "\<not> cacheable r \<and> luaState r \<and> scriptContext w = Some L \<longrightarrow>
      (\<exists>q r' w'. spin call cvt r tjd w = Some (q, r', w') \<and> api_calls w < api_calls w'
         \<and> (\<forall>t f. orientation_lookup (mem L) (luaRotationObjectName r) = Callable t f
               \<longrightarrow> script_calls w' = (f, [LTable t, LNumber tjd]) # script_calls w))
      \<and> (orientation_lookup (mem L) (luaRotationObjectName r) = Vanished \<longrightarrow>
           spin call cvt r tjd w =
             Some (lastOrientation r, r,
                   w\<lparr>scriptContext := Some (L\<lparr>apiCalls := apiCalls L + 2\<rparr>)\<rparr>))
      \<and> (orientation_lookup (mem L) (luaRotationObjectName r) = BadOrientation \<longrightarrow>
           spin call cvt r tjd w =
             Some (lastOrientation r, r,
                   w\<lparr>scriptContext := Some (L\<lparr>apiCalls := apiCalls L + 5\<rparr>)\<rparr>))
      \<and> (\<forall>t f err m'.
            orientation_lookup (mem L) (luaRotationObjectName r) = Callable t f
            \<and> call f [LTable t, LNumber tjd] (mem L) = (Inl err, m') \<longrightarrow>
            spin call cvt r tjd w =
              Some (lastOrientation r, r,
                    w\<lparr>logger := logger w @
                         [(Warn, ''ScriptedRotation failed: {}\<newline>'', [LuaText err])],
                      scriptContext := Some (L\<lparr>mem := m', apiCalls := apiCalls L + 8,
                         scriptCalls := (f, [LTable t, LNumber tjd]) # scriptCalls L\<rparr>)\<rparr>))
      \<and> (\<forall>t f rs m' L4 q.
            orientation_lookup (mem L) (luaRotationObjectName r) = Callable t f
            \<and> call f [LTable t, LNumber tjd] (mem L) = (Inr rs, m')
            \<and> L4 = L\<lparr>mem := m', stack := rev (adjust 4 rs) @ LTable t # stack L,
                       apiCalls := apiCalls L + 6,
                       scriptCalls := (f, [LTable t, LNumber tjd]) # scriptCalls L\<rparr>
            \<and> q = Quaterniond (lua_tonumber cvt L4 4) (lua_tonumber cvt L4 3)
                               (lua_tonumber cvt L4 2) (lua_tonumber cvt L4 1) \<longrightarrow>
            spin call cvt r tjd w =
              Some (q, r\<lparr>lastOrientation := q, lastTime := tjd\<rparr>,
                    w\<lparr>scriptContext := Some (L\<lparr>mem := m', apiCalls := apiCalls L + 8,
                         scriptCalls := (f, [LTable t, LNumber tjd]) # scriptCalls L\<rparr>)\<rparr>))"
  proof (intro impI conjI allI)
    assume h: "\<not> cacheable r \<and> luaState r \<and> scriptContext w = Some L"
    then have miss: "dne tjd (lastTime r) \<or> \<not> cacheable r" and ls: "luaState r"
      and ctx: "scriptContext w = Some L" by simp_all
    show "\<exists>q r' w'. spin call cvt r tjd w = Some (q, r', w') \<and> api_calls w < api_calls w'
         \<and> (\<forall>t f. orientation_lookup (mem L) (luaRotationObjectName r) = Callable t f
               \<longrightarrow> script_calls w' = (f, [LTable t, LNumber tjd]) # script_calls w)"
      by (rule spin_miss_api [OF miss ls ctx])
    {
      assume "orientation_lookup (mem L) (luaRotationObjectName r) = Vanished"
      then show "spin call cvt r tjd w =
             Some (lastOrientation r, r,
                   w\<lparr>scriptContext := Some (L\<lparr>apiCalls := apiCalls L + 2\<rparr>)\<rparr>)"
        by (rule spin_vanished [OF miss ls ctx])
    }
    {
      assume "orientation_lookup (mem L) (luaRotationObjectName r) = BadOrientation"
      then show "spin call cvt r tjd w =
             Some (lastOrientation r, r,
                   w\<lparr>scriptContext := Some (L\<lparr>apiCalls := apiCalls L + 5\<rparr>)\<rparr>)"
        by (rule spin_bad_orientation [OF miss ls ctx])
    }
    {
      fix t f err m'
      assume "orientation_lookup (mem L) (luaRotationObjectName r) = Callable t f
            \<and> call f [LTable t, LNumber tjd] (mem L) = (Inl err, m')"
      then show "spin call cvt r tjd w =
              Some (lastOrientation r, r,
                    w\<lparr>logger := logger w @
                         [(Warn, ''ScriptedRotation failed: {}\<newline>'', [LuaText err])],
                      scriptContext := Some (L\<lparr>mem := m', apiCalls := apiCalls L + 8,
                         scriptCalls := (f, [LTable t, LNumber tjd]) # scriptCalls L\<rparr>)\<rparr>)"
        using spin_call_error [where call = call and cvt = cvt, OF miss ls ctx] by simp
    }
    {
      fix t f rs m' L4 q
      assume "orientation_lookup (mem L) (luaRotationObjectName r) = Callable t f
            \<and> call f [LTable t, LNumber tjd] (mem L) = (Inr rs, m')
            \<and> L4 = L\<lparr>mem := m', stack := rev (adjust 4 rs) @ LTable t # stack L,
                       apiCalls := apiCalls L + 6,
                       scriptCalls := (f, [LTable t, LNumber tjd]) # scriptCalls L\<rparr>
            \<and> q = Quaterniond (lua_tonumber cvt L4 4) (lua_tonumber cvt L4 3)
                               (lua_tonumber cvt L4 2) (lua_tonumber cvt L4 1)"
      then show "spin call cvt r tjd w =
              Some (q, r\<lparr>lastOrientation := q, lastTime := tjd\<rparr>,
                    w\<lparr>scriptContext := Some (L\<lparr>mem := m', apiCalls := apiCalls L + 8,
                         scriptCalls := (f, [LTable t, LNumber tjd]) # scriptCalls L\<rparr>)\<rparr>)"
        using spin_call_ok [where call = call and cvt = cvt and ?L4.0 = L4 and q = q,
                OF miss ls ctx]
        by blast
    }
  qed
next
  show "(\<exists>q r'. spin call cvt r tjd w = Some (q, r', w)) \<longleftrightarrow> deq tjd (lastTime r) \<and> cacheable r"
  proof
    assume "deq tjd (lastTime r) \<and> cacheable r"
    then show "\<exists>q r'. spin call cvt r tjd w = Some (q, r', w)"
      by (simp add: spin_cached)
  next
    assume u: "\<exists>q r'. spin call cvt r tjd w = Some (q, r', w)"
    show "deq tjd (lastTime r) \<and> cacheable r"
    proof (rule ccontr)
      assume "\<not> (deq tjd (lastTime r) \<and> cacheable r)"
      then have miss: "dne tjd (lastTime r) \<or> \<not> cacheable r" by (auto simp add: dne_def)
      show False
      proof (cases "luaState r \<and> scriptContext w \<noteq> None")
        case False
        then show False using spin_null [OF miss, of w call cvt] u by auto
      next
        case True
        then obtain L where "scriptContext w = Some L" and "luaState r" by auto
        from spin_miss_api [OF miss this(2) this(1), of call cvt] u show False by auto
      qed
    qed
  qed
qed

theorem spin_not_cacheable_witness:
  "\<not> cacheable (demo_rotation\<lparr>cacheable := False, lastTime := d_zero\<rparr>)
   \<and> luaState (demo_rotation\<lparr>cacheable := False, lastTime := d_zero\<rparr>)
   \<and> deq d_zero (lastTime (demo_rotation\<lparr>cacheable := False, lastTime := d_zero\<rparr>))
   \<and> (\<exists>w'. spin demo_call demo_cvt (demo_rotation\<lparr>cacheable := False, lastTime := d_zero\<rparr>)
                d_zero (registered_world 1) =
              Some (Identity,
                    demo_rotation\<lparr>cacheable := False, lastTime := d_zero,
                                  lastOrientation := Identity, lastTime := d_zero\<rparr>, w')
          \<and> api_calls w' = api_calls (registered_world 1) + 8
          \<and> script_calls w' = [(1, [LTable 0, LNumber d_zero])])
   \<and> (\<exists>w'. spin demo_call demo_cvt (demo_rotation\<lparr>cacheable := False, lastTime := d_zero\<rparr>)
                d_zero (registered_world 2) =
              Some (Identity, demo_rotation\<lparr>cacheable := False, lastTime := d_zero\<rparr>, w')
          \<and> logger w' = [(Warn, ''ScriptedRotation failed: {}\<newline>'', [LuaText (LString ''boom'')])]
          \<and> script_calls w' = [(2, [LTable 0, LNumber d_zero])])"
proof -
  let ?r = "demo_rotation\<lparr>cacheable := False, lastTime := d_zero\<rparr>"
  obtain L where c: "scriptContext (registered_world 1) = Some L"
    by (simp add: registered_world_def)
  have d: "orientation_lookup (mem L) (luaRotationObjectName ?r) = Callable 0 1"
    using lookup_registered [OF c] by (simp add: demo_rotation_def)
  have a: "\<not> cacheable ?r \<and> luaState ?r \<and> scriptContext (registered_world 1) = Some L"
    using c by (simp add: demo_rotation_def)
  have s0: "scriptCalls L = []"
    using c by (auto simp add: registered_world_def demo_state_def)
  have k: "demo_call 1 [LTable 0, LNumber d_zero] (mem L) =
             (Inr [LNumber d_one, LNumber d_zero, LNumber d_zero, LNumber d_zero], mem L)"
    by (simp add: demo_call_def)
  have e: "deq d_zero (lastTime ?r)" by (simp add: double_eval)
  note ok = spin_not_cacheable [of ?r "registered_world 1" L demo_call demo_cvt d_zero,
         THEN conjunct1, rule_format, OF a, THEN conjunct2, THEN conjunct2, THEN conjunct2,
         THEN conjunct2, rule_format, OF conjI [OF d conjI [OF k conjI [OF refl refl]]]]
  have 1: "\<exists>w'. spin demo_call demo_cvt ?r d_zero (registered_world 1) =
              Some (Identity, ?r\<lparr>lastOrientation := Identity, lastTime := d_zero\<rparr>, w')
          \<and> api_calls w' = api_calls (registered_world 1) + 8
          \<and> script_calls w' = [(1, [LTable 0, LNumber d_zero])]"
    using ok c
    by (simp add: lua_tonumber_def at_index_def adjust_def Identity_def api_calls_def
          script_calls_def s0)
  obtain L2 where c2: "scriptContext (registered_world 2) = Some L2"
    by (simp add: registered_world_def)
  have d2: "orientation_lookup (mem L2) (luaRotationObjectName ?r) = Callable 0 2"
    using lookup_registered [OF c2] by (simp add: demo_rotation_def)
  have a2: "\<not> cacheable ?r \<and> luaState ?r \<and> scriptContext (registered_world 2) = Some L2"
    using c2 by (simp add: demo_rotation_def)
  have s2: "scriptCalls L2 = []"
    using c2 by (auto simp add: registered_world_def demo_state_def)
  have l2: "logger (registered_world 2) = []"
    by (simp add: registered_world_def demo_world_def)
  have k2: "demo_call 2 [LTable 0, LNumber d_zero] (mem L2) = (Inl (LString ''boom''), mem L2)"
    by (simp add: demo_call_def)
  have lo: "lastOrientation ?r = Identity" by (simp add: demo_rotation_def newRotation_def)
  note er = spin_not_cacheable [of ?r "registered_world 2" L2 demo_call demo_cvt d_zero,
         THEN conjunct1, rule_format, OF a2, THEN conjunct2, THEN conjunct2, THEN conjunct2,
         THEN conjunct1, rule_format, OF conjI [OF d2 k2]]
  have 2: "\<exists>w'. spin demo_call demo_cvt ?r d_zero (registered_world 2) =
              Some (Identity, ?r, w')
          \<and> logger w' = [(Warn, ''ScriptedRotation failed: {}\<newline>'', [LuaText (LString ''boom'')])]
          \<and> script_calls w' = [(2, [LTable 0, LNumber d_zero])]"
    using er by (simp add: lo l2 script_calls_def s2)
  from a e 1 2 show ?thesis by simp
qed

section \<open>Evaluation: the log\<close>

text \<open>
  C8, as stated: every evaluation-time failure emits a message. It fails where the
  registered object has vanished: \<open>spin\<close> falls back to the cached value and the log
  stays empty.
\<close>

theorem spin_silent_counterexample:
  "dne d_zero (lastTime demo_rotation) \<and> luaState demo_rotation
   \<and> orientation_lookup (mem demo_state) (luaRotationObjectName demo_rotation) = Vanished
   \<and> logger demo_world = []
   \<and> log_after (spin demo_call demo_cvt demo_rotation d_zero demo_world) = Some []"
proof -
  have a: "luaState demo_rotation" by (simp add: demo_rotation_def)
  have b: "scriptContext demo_world = Some demo_state" by (simp add: demo_world_def)
  have c: "orientation_lookup (mem demo_state) (luaRotationObjectName demo_rotation) = Vanished"
    by (simp add: demo_state_def demo_rotation_def lookup_demo_vanished)
  have d: "logger demo_world = []" by (simp add: demo_world_def)
  from spin_vanished [OF disjI1 [OF demo_rotation_miss] a b c, of demo_call demo_cvt] a c d
    demo_rotation_miss
  show ?thesis by (simp add: log_after_def)
qed

text \<open>
  C8, amended. Of the evaluation-time failures only a runtime error of the orientation
  call is logged: one message of level warn that carries the error value of the engine.
  A vanished object and a missing or non-callable \<open>orientation\<close> field leave the log as
  it was.
\<close>

theorem spin_logging:
  assumes "dne tjd (lastTime r) \<or> \<not> cacheable r" and "luaState r" and "scriptContext w = Some L"
  shows "(orientation_lookup (mem L) (luaRotationObjectName r) = Vanished
          \<or> orientation_lookup (mem L) (luaRotationObjectName r) = BadOrientation
            \<longrightarrow> log_after (spin call cvt r tjd w) = Some (logger w))
       \<and> (\<forall>t f err m'. orientation_lookup (mem L) (luaRotationObjectName r) = Callable t f
              \<and> call f [LTable t, LNumber tjd] (mem L) = (Inl err, m')
            \<longrightarrow> log_after (spin call cvt r tjd w) =
                  Some (logger w @ [(Warn, ''ScriptedRotation failed: {}\<newline>'', [LuaText err])]))"
proof (intro conjI impI allI)
  assume "orientation_lookup (mem L) (luaRotationObjectName r) = Vanished
          \<or> orientation_lookup (mem L) (luaRotationObjectName r) = BadOrientation"
  then show "log_after (spin call cvt r tjd w) = Some (logger w)"
    using spin_vanished [OF assms, of call cvt] spin_bad_orientation [OF assms, of call cvt]
    by (auto simp add: log_after_def)
next
  fix t f err m'
  assume "orientation_lookup (mem L) (luaRotationObjectName r) = Callable t f
              \<and> call f [LTable t, LNumber tjd] (mem L) = (Inl err, m')"
  then show "log_after (spin call cvt r tjd w) =
                  Some (logger w @ [(Warn, ''ScriptedRotation failed: {}\<newline>'', [LuaText err])])"
    using spin_call_error [where call = call and cvt = cvt, OF assms]
    by (simp add: log_after_def)
qed

theorem spin_logging_witness:
  "(dne d_zero (lastTime demo_rotation) \<or> \<not> cacheable demo_rotation) \<and> luaState demo_rotation
   \<and> log_after (spin demo_call demo_cvt demo_rotation d_zero demo_world) = Some (logger demo_world)
   \<and> log_after (spin demo_call demo_cvt demo_rotation d_zero (registered_world 2)) =
        Some [(Warn, ''ScriptedRotation failed: {}\<newline>'', [LuaText (LString ''boom'')])]"
proof -
  have m: "dne d_zero (lastTime demo_rotation) \<or> \<not> cacheable demo_rotation"
    using demo_rotation_miss by simp
  have a: "luaState demo_rotation" by (simp add: demo_rotation_def)
  have b: "scriptContext demo_world = Some demo_state" by (simp add: demo_world_def)
  have c: "orientation_lookup (mem demo_state) (luaRotationObjectName demo_rotation) = Vanished"
    by (simp add: demo_state_def demo_rotation_def lookup_demo_vanished)
  obtain L where b2: "scriptContext (registered_world 2) = Some L"
    by (simp add: registered_world_def)
  have c2: "orientation_lookup (mem L) (luaRotationObjectName demo_rotation) = Callable 0 2"
    using lookup_registered [OF b2] by (simp add: demo_rotation_def)
  have e: "demo_call 2 [LTable 0, LNumber d_zero] (mem L) = (Inl (LString ''boom''), mem L)"
    by (simp add: demo_call_def)
  have l: "logger (registered_world 2) = []"
    by (simp add: registered_world_def demo_world_def)
  from spin_logging [OF m a b, of demo_call demo_cvt, THEN conjunct1] c
  have 1: "log_after (spin demo_call demo_cvt demo_rotation d_zero demo_world) = Some (logger demo_world)"
    by simp
  from spin_logging [OF m a b2, of demo_call demo_cvt, THEN conjunct2, rule_format, of 0 2] c2 e l
  have 2: "log_after (spin demo_call demo_cvt demo_rotation d_zero (registered_world 2)) =
        Some [(Warn, ''ScriptedRotation failed: {}\<newline>'', [LuaText (LString ''boom'')])]"
    by simp
  from m a 1 2 show ?thesis by simp
qed

section \<open>Evaluation: the cache\<close>

text \<open>
  C2, as stated: two calls in a row at the same time, with \<open>cacheable\<close> true, make
  exactly one script-side call. It fails where the orientation function raises an error:
  the failed call does not update \<open>lastTime\<close>, and the second call runs the function
  again.
\<close>

theorem spin_twice_counterexample:
  "cacheable demo_rotation \<and> script_calls (registered_world 2) = []
   \<and> calls_after (spin_all demo_call demo_cvt [d_zero, d_zero] demo_rotation (registered_world 2)) =
        Some [(2, [LTable 0, LNumber d_zero]), (2, [LTable 0, LNumber d_zero])]"
proof -
  have m: "dne d_zero (lastTime demo_rotation) \<or> \<not> cacheable demo_rotation"
    using demo_rotation_miss by simp
  have a: "luaState demo_rotation" by (simp add: demo_rotation_def)
  obtain L where b: "scriptContext (registered_world 2) = Some L"
    by (simp add: registered_world_def)
  have c: "orientation_lookup (mem L) (luaRotationObjectName demo_rotation) = Callable 0 2"
    using lookup_registered [OF b] by (simp add: demo_rotation_def)
  have e: "demo_call 2 [LTable 0, LNumber d_zero] (mem L) = (Inl (LString ''boom''), mem L)"
    by (simp add: demo_call_def)
  have s0: "scriptCalls L = []"
    using b by (auto simp add: registered_world_def demo_state_def)
  define L1 where "L1 = L\<lparr>mem := mem L, apiCalls := apiCalls L + 8,
                scriptCalls := (2, [LTable 0, LNumber d_zero]) # scriptCalls L\<rparr>"
  define w1 where "w1 = (registered_world 2)
           \<lparr>logger := logger (registered_world 2) @
                [(Warn, ''ScriptedRotation failed: {}\<newline>'', [LuaText (LString ''boom'')])],
             scriptContext := Some L1\<rparr>"
  have first: "spin demo_call demo_cvt demo_rotation d_zero (registered_world 2) =
                 Some (lastOrientation demo_rotation, demo_rotation, w1)"
    unfolding w1_def L1_def
    by (rule spin_call_error [where call = demo_call and cvt = demo_cvt, OF m a b c e])
  have b1: "scriptContext w1 = Some L1" by (simp add: w1_def)
  have c1: "orientation_lookup (mem L1) (luaRotationObjectName demo_rotation) = Callable 0 2"
    using c by (simp add: L1_def)
  have e1: "demo_call 2 [LTable 0, LNumber d_zero] (mem L1) = (Inl (LString ''boom''), mem L1)"
    by (simp add: demo_call_def)
  note second = spin_call_error [where call = demo_call and cvt = demo_cvt, OF m a b1 c1 e1]
  have "calls_after (spin_all demo_call demo_cvt [d_zero, d_zero] demo_rotation (registered_world 2)) =
        Some [(2, [LTable 0, LNumber d_zero]), (2, [LTable 0, LNumber d_zero])]"
    by (simp add: first second calls_after_def script_calls_def) (simp add: L1_def s0)
  moreover have "cacheable demo_rotation" by (simp add: demo_rotation_def newRotation_def)
  moreover have "script_calls (registered_world 2) = []"
    by (simp add: script_calls_def registered_world_def demo_state_def)
  ultimately show ?thesis by simp
qed

text \<open>
  C2, amended. With \<open>cacheable\<close> true a call at a time equal (\<open>==\<close>) to \<open>lastTime\<close>
  returns \<open>lastOrientation\<close> and leaves the engine untouched. Two calls in a row at a
  time \<open>t\<close> make exactly one script-side call and return the same quaternion when the
  first call misses the cache, finds a callable \<open>orientation\<close> whose call succeeds, and
  \<open>t == t\<close> (\<open>t\<close> is not a NaN).
\<close>

theorem spin_same_time_twice:
  "(cacheable r \<and> deq tjd (lastTime r) \<longrightarrow> spin call cvt r tjd w = Some (lastOrientation r, r, w))
   \<and> (cacheable r \<and> dne tjd (lastTime r) \<and> deq tjd tjd \<and> luaState r \<and> scriptContext w = Some L
        \<and> orientation_lookup (mem L) (luaRotationObjectName r) = Callable t f
        \<and> call f [LTable t, LNumber tjd] (mem L) = (Inr rs, m')
      \<longrightarrow> (\<exists>q r' w'. spin_all call cvt [tjd, tjd] r w = Some ([q, q], r', w')
             \<and> lastOrientation r' = q \<and> lastTime r' = tjd
             \<and> script_calls w' = (f, [LTable t, LNumber tjd]) # script_calls w))"
proof (intro conjI impI)
  assume "cacheable r \<and> deq tjd (lastTime r)"
  then show "spin call cvt r tjd w = Some (lastOrientation r, r, w)"
    by (simp add: spin_cached)
next
  assume h: "cacheable r \<and> dne tjd (lastTime r) \<and> deq tjd tjd \<and> luaState r \<and> scriptContext w = Some L
        \<and> orientation_lookup (mem L) (luaRotationObjectName r) = Callable t f
        \<and> call f [LTable t, LNumber tjd] (mem L) = (Inr rs, m')"
  then have miss: "dne tjd (lastTime r) \<or> \<not> cacheable r" by simp
  from h have ls: "luaState r" and ctx: "scriptContext w = Some L"
    and lk: "orientation_lookup (mem L) (luaRotationObjectName r) = Callable t f"
    and c: "call f [LTable t, LNumber tjd] (mem L) = (Inr rs, m')" by simp_all
  note first = spin_call_ok [where call = call and cvt = cvt, OF miss ls ctx lk c refl refl]
  from h have "cacheable r" "deq tjd tjd" by simp_all
  then show "\<exists>q r' w'. spin_all call cvt [tjd, tjd] r w = Some ([q, q], r', w')
             \<and> lastOrientation r' = q \<and> lastTime r' = tjd
             \<and> script_calls w' = (f, [LTable t, LNumber tjd]) # script_calls w"
    using ctx by (simp add: first spin_cached script_calls_def)
qed

theorem spin_same_time_twice_witness:
  "cacheable (demo_rotation\<lparr>lastTime := d_zero\<rparr>)
   \<and> deq d_zero (lastTime (demo_rotation\<lparr>lastTime := d_zero\<rparr>))
   \<and> spin demo_call demo_cvt (demo_rotation\<lparr>lastTime := d_zero\<rparr>) d_zero (registered_world 1) =
         Some (Identity, demo_rotation\<lparr>lastTime := d_zero\<rparr>, registered_world 1)
   \<and> cacheable demo_rotation \<and> dne d_zero (lastTime demo_rotation) \<and> deq d_zero d_zero
   \<and> luaState demo_rotation
   \<and> (\<exists>q r' w'. spin_all demo_call demo_cvt [d_zero, d_zero] demo_rotation (registered_world 1) =
                     Some ([q, q], r', w')
          \<and> script_calls w' = [(1, [LTable 0, LNumber d_zero])])"
proof -
  let ?r = "demo_rotation\<lparr>lastTime := d_zero\<rparr>"
  have z: "deq d_zero d_zero" by (simp add: double_eval)
  have ca: "cacheable demo_rotation" by (simp add: demo_rotation_def newRotation_def)
  have a: "luaState demo_rotation" by (simp add: demo_rotation_def)
  have lo: "lastOrientation ?r = Identity" by (simp add: demo_rotation_def newRotation_def)
  obtain L where c: "scriptContext (registered_world 1) = Some L"
    by (simp add: registered_world_def)
  have d: "orientation_lookup (mem L) (luaRotationObjectName demo_rotation) = Callable 0 1"
    using lookup_registered [OF c] by (simp add: demo_rotation_def)
  have e: "demo_call 1 [LTable 0, LNumber d_zero] (mem L) =
             (Inr [LNumber d_one, LNumber d_zero, LNumber d_zero, LNumber d_zero], mem L)"
    by (simp add: demo_call_def)
  have f: "script_calls (registered_world 1) = []"
    by (simp add: script_calls_def registered_world_def demo_state_def)
  from spin_same_time_twice [of ?r d_zero demo_call demo_cvt "registered_world 1", THEN conjunct1] z ca lo
  have 1: "spin demo_call demo_cvt ?r d_zero (registered_world 1) =
             Some (Identity, ?r, registered_world 1)"
    by simp
  from spin_same_time_twice [of demo_rotation d_zero demo_call demo_cvt "registered_world 1" L 0 1
         "[LNumber d_one, LNumber d_zero, LNumber d_zero, LNumber d_zero]" "mem L", THEN conjunct2]
       ca demo_rotation_miss z a c d e f
  have 2: "\<exists>q r' w'. spin_all demo_call demo_cvt [d_zero, d_zero] demo_rotation (registered_world 1) =
                     Some ([q, q], r', w')
          \<and> script_calls w' = [(1, [LTable 0, LNumber d_zero])]"
    by auto
  from 1 2 z ca a demo_rotation_miss show ?thesis by simp
qed

section \<open>Period and valid range\<close>

text \<open>
  C6. \<open>getPeriod\<close> returns \<open>validRangeEnd - validRangeBegin\<close> if \<open>period == 0\<close> and
  \<open>period\<close> otherwise; \<open>isPeriodic\<close> is true exactly when \<open>period == 0\<close> is false, and
  then \<open>getPeriod\<close> is \<open>period\<close>.
\<close>

theorem getPeriod_isPeriodic:
  "getPeriod sub r =
     (if deq (period r) d_zero then sub (validRangeEnd r) (validRangeBegin r) else period r)
   \<and> (isPeriodic r \<longleftrightarrow> \<not> deq (period r) d_zero)
   \<and> (if isPeriodic r then getPeriod sub r = period r
       else getPeriod sub r = sub (validRangeEnd r) (validRangeBegin r))"
  by (simp add: getPeriod_def isPeriodic_def dne_def)

theorem getPeriod_isPeriodic_witness:
  "getPeriod demo_sub (demo_rotation\<lparr>validRangeBegin := d_ten, validRangeEnd := d_twenty\<rparr>) = d_ten
   \<and> \<not> isPeriodic (demo_rotation\<lparr>validRangeBegin := d_ten, validRangeEnd := d_twenty\<rparr>)
   \<and> getPeriod demo_sub (demo_rotation\<lparr>period := d_one\<rparr>) = d_one
   \<and> isPeriodic (demo_rotation\<lparr>period := d_one\<rparr>)"
proof -
  have z: "deq (period demo_rotation) d_zero"
    by (simp add: demo_rotation_def newRotation_def double_eval)
  have o: "\<not> deq d_one d_zero"
    by (simp add: double_eval)
  from getPeriod_isPeriodic
         [of demo_sub "demo_rotation\<lparr>validRangeBegin := d_ten, validRangeEnd := d_twenty\<rparr>"]
       getPeriod_isPeriodic [of demo_sub "demo_rotation\<lparr>period := d_one\<rparr>"] z o
  show ?thesis by (simp add: demo_sub_def)
qed

section \<open>Construction\<close>

text \<open>
  C7. With the parameters table absent, \<open>initialize\<close> returns false at once: the model
  (its \<open>luaState\<close> is not assigned) and the whole process state, the engine with its
  call counters and the log, are as before.
\<close>

theorem initialize_no_parameters:
  "initialize call gen moduleName funcName None path r w = (False, r, w)"
  by (simp add: initialize_def)

section \<open>The steps of initialize\<close>

lemma SetLuaVariables_frame:
  "stack (SetLuaVariables L ps) = stack L
   \<and> globals (mem (SetLuaVariables L ps)) = globals (mem L)
   \<and> nextTable (mem (SetLuaVariables L ps)) = nextTable (mem L)
   \<and> scriptCalls (SetLuaVariables L ps) = scriptCalls L"
proof (induction ps arbitrary: L)
  case Nil
  show ?case by simp
next
  case (Cons kv ps)
  obtain key v where kv: "kv = (key, v)" by (cases kv)
  let ?L = "lua_settable (pushhashval (lua_pushstring L key) v) 3"
  have "stack ?L = stack L \<and> globals (mem ?L) = globals (mem L)
        \<and> nextTable (mem ?L) = nextTable (mem L) \<and> scriptCalls ?L = scriptCalls L"
    by (cases v; cases "at_index (pushhashval (lua_pushstring L key) v) 3")
       (simp_all add: pushhashval_def lua_settable_def lua_pushstring_def lua_pushnumber_def
          lua_pushboolean_def push_def rawset_def)
  with Cons.IH [of ?L] kv show ?case by simp
qed

lemma build_parameters_frame:
  "stack (build_parameters L ps path) = LTable (nextTable (mem L)) # stack L
   \<and> globals (mem (build_parameters L ps path)) = globals (mem L)
   \<and> nextTable (mem (build_parameters L ps path)) = Suc (nextTable (mem L))
   \<and> scriptCalls (build_parameters L ps path) = scriptCalls L"
proof -
  let ?L2 = "lua_newtable L"
  let ?L3 = "SetLuaVariables ?L2 ps"
  have 2: "stack ?L2 = LTable (nextTable (mem L)) # stack L" "globals (mem ?L2) = globals (mem L)"
    "scriptCalls ?L2 = scriptCalls L" "nextTable (mem ?L2) = Suc (nextTable (mem L))"
    by (simp_all add: lua_newtable_def)
  have 3: "stack ?L3 = LTable (nextTable (mem L)) # stack L" "globals (mem ?L3) = globals (mem L)"
    "scriptCalls ?L3 = scriptCalls L" "nextTable (mem ?L3) = Suc (nextTable (mem L))"
    using SetLuaVariables_frame [of ?L2 ps] 2 by simp_all
  show ?thesis
    using 3
    by (simp add: build_parameters_def Let_def lua_settable_def lua_pushstring_def push_def
          rawset_def at_index_def)
qed

lemma pcall_stack:
  "lua_pcall call L n k = (rc, L') \<Longrightarrow>
     (rc \<noteq> 0 \<longrightarrow> (\<exists>err. stack L' = err # drop (Suc n) (stack L)))
     \<and> (rc = 0 \<longrightarrow> (\<exists>vs. length vs = k \<and> stack L' = vs @ drop (Suc n) (stack L)))"
  by (auto simp add: lua_pcall_def Let_def length_adjust split: luaval.splits prod.splits sum.splits)

lemma initialize_module_stack:
  "initialize_module call mn L w = (False, L', w') \<Longrightarrow> stack L' = stack L"
  apply (simp add: initialize_module_def Let_def split: if_splits prod.splits)
   apply (auto simp add: lua_pop_def lua_getglobal_def push_def lua_pushstring_def dest!: pcall_stack)
  done

lemma pop_fields:
  "stack (lua_pop L n) = drop n (stack L)" "mem (lua_pop L n) = mem L"
  "scriptCalls (lua_pop L n) = scriptCalls L"
  by (simp_all add: lua_pop_def)

lemma getglobal_fields:
  "stack (lua_getglobal L name) = globals (mem L) name # stack L"
  "mem (lua_getglobal L name) = mem L" "scriptCalls (lua_getglobal L name) = scriptCalls L"
  by (simp_all add: lua_getglobal_def push_def)

lemma pushstring_fields:
  "stack (lua_pushstring L s) = LString s # stack L"
  "mem (lua_pushstring L s) = mem L" "scriptCalls (lua_pushstring L s) = scriptCalls L"
  by (simp_all add: lua_pushstring_def push_def)

lemma register_fields:
  "stack L = v # st \<Longrightarrow> stack (lua_setglobal (lua_pushvalue L (Suc 0)) name) = v # st"
  "stack L = v # st \<Longrightarrow>
     mem (lua_setglobal (lua_pushvalue L (Suc 0)) name) = (mem L)\<lparr>globals := (globals (mem L))(name := v)\<rparr>"
  "scriptCalls (lua_setglobal (lua_pushvalue L (Suc 0)) name) = scriptCalls L"
  by (simp_all add: lua_setglobal_def lua_pushvalue_def push_def at_index_def)

lemma at_index_top: "stack L = v # st \<Longrightarrow> at_index L (Suc 0) = v"
  by (simp add: at_index_def)

lemmas lua_fields = pop_fields getglobal_fields pushstring_fields register_fields at_index_top

lemma initialize_object_failure_stack:
  assumes "initialize_object call gen fn ps path r L w = (False, r', L', w')"
  shows "stack L' = stack L"
proof -
  let ?L1 = "lua_getglobal L fn"
  let ?L4 = "build_parameters ?L1 ps path"
  obtain rc L5 where pc: "lua_pcall call ?L4 (Suc 0) (Suc 0) = (rc, L5)"
    by (cases "lua_pcall call ?L4 (Suc 0) (Suc 0)")
  have s4: "stack ?L4 = LTable (nextTable (mem L)) # globals (mem L) fn # stack L"
    using build_parameters_frame [of ?L1 ps path] by (simp add: lua_getglobal_def push_def)
  from pcall_stack [OF pc] s4
  have s5: "\<exists>v. stack L5 = v # stack L"
    by (cases "rc = 0") (auto simp add: length_Suc_conv)
  then obtain v where v: "stack L5 = v # stack L" by blast
  from assms show ?thesis
    by (auto simp add: initialize_object_def Let_def pc v lua_fields
          GenerateScriptObjectName_def split: if_splits)
qed

lemma initialize_object_success:
  assumes "initialize_object call gen fn ps path r L w = (True, r', L', w')"
  shows "\<exists>t. globals (mem L') (luaRotationObjectName r') = LTable t
     \<and> period r' = optional_number (tables (mem L') t (LString ''period''))
     \<and> validRangeBegin r' = optional_number (tables (mem L') t (LString ''beginDate''))
     \<and> validRangeEnd r' = optional_number (tables (mem L') t (LString ''endDate''))
     \<and> \<not> dlt (validRangeEnd r') (validRangeBegin r')
     \<and> stack L' = stack L
     \<and> luaState r' = luaState r \<and> lastOrientation r' = lastOrientation r
     \<and> lastTime r' = lastTime r \<and> cacheable r' = cacheable r"
proof -
  let ?L1 = "lua_getglobal L fn"
  let ?L4 = "build_parameters ?L1 ps path"
  obtain rc L5 where pc: "lua_pcall call ?L4 (Suc 0) (Suc 0) = (rc, L5)"
    by (cases "lua_pcall call ?L4 (Suc 0) (Suc 0)")
  have s4: "stack ?L4 = LTable (nextTable (mem L)) # globals (mem L) fn # stack L"
    using build_parameters_frame [of ?L1 ps path] by (simp add: lua_getglobal_def push_def)
  from pcall_stack [OF pc] s4
  have s5: "\<exists>v. stack L5 = v # stack L"
    by (cases "rc = 0") (auto simp add: length_Suc_conv)
  then obtain v where v: "stack L5 = v # stack L" by blast
  from assms have tb: "lua_istable L5 (Suc 0)"
    by (auto simp add: initialize_object_def Let_def pc split: if_splits)
  with v obtain t where t: "v = LTable t"
    by (auto simp add: lua_istable_def at_index_def split: luaval.splits)
  from assms show ?thesis
    by (auto simp add: initialize_object_def Let_def pc v t lua_fields rawget_def
          GenerateScriptObjectName_def SafeGetLuaNumber_def optional_number_def
          split: if_splits)
qed

lemma initialize_success:
  assumes "initialize call gen mn fn ps path r w = (True, r', w')"
  shows "\<exists>L' t. scriptContext w' = Some L' \<and> luaState r'
     \<and> globals (mem L') (luaRotationObjectName r') = LTable t
     \<and> period r' = optional_number (tables (mem L') t (LString ''period''))
     \<and> validRangeBegin r' = optional_number (tables (mem L') t (LString ''beginDate''))
     \<and> validRangeEnd r' = optional_number (tables (mem L') t (LString ''endDate''))
     \<and> \<not> dlt (validRangeEnd r') (validRangeBegin r')
     \<and> lastOrientation r' = lastOrientation r
     \<and> lastTime r' = lastTime r \<and> cacheable r' = cacheable r"
proof -
  from assms obtain params where ps: "ps = Some params"
    by (cases ps) (simp_all add: initialize_def)
  from assms ps obtain L where ctx: "scriptContext w = Some L"
    by (cases "scriptContext w") (simp_all add: initialize_def GetScriptedObjectContext_def)
  obtain ok L1 w1 where m: "initialize_module call mn L w = (ok, L1, w1)"
    by (cases "initialize_module call mn L w")
  obtain res r1 L2 w2 where
    ob: "initialize_object call gen fn params path (r\<lparr>luaState := True\<rparr>) L1 w1 = (res, r1, L2, w2)"
    by (cases "initialize_object call gen fn params path (r\<lparr>luaState := True\<rparr>) L1 w1")
  from assms have "ok \<and> res \<and> r' = r1 \<and> w' = w2\<lparr>scriptContext := Some L2\<rparr>"
    by (auto simp add: initialize_def ps ctx GetScriptedObjectContext_def m ob Let_def split: if_splits)
  with initialize_object_success [of call gen fn params path "r\<lparr>luaState := True\<rparr>" L1 w1 r1 L2 w2] ob
  show ?thesis by auto
qed

section \<open>Evaluation when no orientation function is found\<close>

lemma world_context_same: "scriptContext w = Some L \<Longrightarrow> w\<lparr>scriptContext := Some L\<rparr> = w"
  by (cases w) simp

lemma spin_no_callable:
  assumes ls: "luaState r" and ctx: "scriptContext w = Some L"
    and lk: "orientation_lookup (mem L) (luaRotationObjectName r) = Vanished
             \<or> orientation_lookup (mem L) (luaRotationObjectName r) = BadOrientation"
  shows "\<exists>L'. spin call cvt r tjd w = Some (lastOrientation r, r, w\<lparr>scriptContext := Some L'\<rparr>)
           \<and> mem L' = mem L \<and> stack L' = stack L"
proof (cases "dne tjd (lastTime r) \<or> \<not> cacheable r")
  case False
  then have "spin call cvt r tjd w = Some (lastOrientation r, r, w)"
    by (simp add: spin_cached dne_def)
  with world_context_same [OF ctx] show ?thesis by (intro exI [of _ L]) simp
next
  case True
  from lk show ?thesis
  proof
    assume "orientation_lookup (mem L) (luaRotationObjectName r) = Vanished"
    from spin_vanished [OF True ls ctx this, of call cvt] show ?thesis
      by (intro exI [of _ "L\<lparr>apiCalls := apiCalls L + 2\<rparr>"]) simp
  next
    assume "orientation_lookup (mem L) (luaRotationObjectName r) = BadOrientation"
    from spin_bad_orientation [OF True ls ctx this, of call cvt] show ?thesis
      by (intro exI [of _ "L\<lparr>apiCalls := apiCalls L + 5\<rparr>"]) simp
  qed
qed

lemma spin_all_no_callable:
  assumes "luaState r" and "scriptContext w = Some L"
    and "orientation_lookup (mem L) (luaRotationObjectName r) = Vanished
         \<or> orientation_lookup (mem L) (luaRotationObjectName r) = BadOrientation"
  shows "\<exists>w'. spin_all call cvt ts r w = Some (replicate (length ts) (lastOrientation r), r, w')"
  using assms
proof (induction ts arbitrary: w L)
  case Nil
  show ?case by simp
next
  case (Cons t ts)
  from spin_no_callable [OF Cons.prems, of call cvt t]
  obtain L' where s: "spin call cvt r t w = Some (lastOrientation r, r, w\<lparr>scriptContext := Some L'\<rparr>)"
    and m: "mem L' = mem L" by blast
  have "scriptContext (w\<lparr>scriptContext := Some L'\<rparr>) = Some L'" by simp
  from Cons.IH [OF Cons.prems(1) this] Cons.prems(3) m
  obtain w' where "spin_all call cvt ts r (w\<lparr>scriptContext := Some L'\<rparr>) =
      Some (replicate (length ts) (lastOrientation r), r, w')" by auto
  with s show ?case by simp
qed

lemma initialize_object_forward:
  assumes fn: "globals (mem L) fn = LFunction f"
    and fac: "call f [LTable (nextTable (mem L))] (mem (build_parameters (lua_getglobal L fn) ps path))
                = (Inr (LTable t # rs), m')"
    and p: "p = optional_number (tables m' t (LString ''period''))"
    and b: "b = optional_number (tables m' t (LString ''beginDate''))"
    and e: "e = optional_number (tables m' t (LString ''endDate''))"
    and name: "name = gen (objectCount w)"
  shows "\<exists>L'. initialize_object call gen fn ps path r L w =
           (\<not> dlt e b,
            r\<lparr>luaRotationObjectName := name, period := p, validRangeBegin := b, validRangeEnd := e\<rparr>,
            L',
            (if dlt e b
             then logmsg Err ''Bad script rotation: valid range end < begin\<newline>'' []
                    (w\<lparr>objectCount := Suc (objectCount w)\<rparr>)
             else w\<lparr>objectCount := Suc (objectCount w)\<rparr>))
         \<and> stack L' = stack L
         \<and> mem L' = m'\<lparr>globals := (globals m')(name := LTable t)\<rparr>
         \<and> scriptCalls L' = (f, [LTable (nextTable (mem L))]) # scriptCalls L"
proof -
  let ?L1 = "lua_getglobal L fn"
  let ?L4 = "build_parameters ?L1 ps path"
  note fr = build_parameters_frame [of ?L1 ps path]
  have s4: "stack ?L4 = LTable (nextTable (mem L)) # LFunction f # stack L"
    using fr fn by (simp add: getglobal_fields)
  have f1: "lua_isfunction ?L1 (Suc 0)"
    by (simp add: lua_isfunction_def at_index_def getglobal_fields fn)
  define L5 where "L5 = ?L4\<lparr>mem := m', stack := LTable t # stack L, apiCalls := Suc (apiCalls ?L4),
                     scriptCalls := (f, [LTable (nextTable (mem L))]) # scriptCalls L\<rparr>"
  have sc4: "scriptCalls ?L4 = scriptCalls L"
    using fr by (simp add: getglobal_fields)
  have pc: "lua_pcall call ?L4 (Suc 0) (Suc 0) = (0, L5)"
    by (simp add: lua_pcall_def Let_def at_index_def s4 fac adjust_def L5_def sc4)
  have s5: "stack L5 = LTable t # stack L" "mem L5 = m'"
    "scriptCalls L5 = (f, [LTable (nextTable (mem L))]) # scriptCalls L"
    by (simp_all add: L5_def)
  have t5: "lua_istable L5 (Suc 0)"
    by (simp add: lua_istable_def at_index_def s5)
  have a6: "at_index (lua_setglobal (lua_pushvalue L5 (Suc 0)) nm) (Suc 0) = LTable t" for nm
    by (rule at_index_top [OF register_fields(1) [OF s5(1)]])
  show ?thesis
    by (simp add: initialize_object_def Let_def f1 pc t5 a6 GenerateScriptObjectName_def
          SafeGetLuaNumber_def rawget_def register_fields(1,2) [OF s5(1)] register_fields(3) at_index_top [OF s5(1)]
          pop_fields s5 p b e name
          optional_number_def)
qed

section \<open>Construction, forwards\<close>

lemma initialize_forward:
  assumes ctx: "scriptContext w = Some L"
    and md: "initialize_module call mn L w = (True, L1, w1)"
    and fn: "globals (mem L1) fn = LFunction f"
    and fac: "call f [LTable (nextTable (mem L1))] (mem (build_parameters (lua_getglobal L1 fn) ps path))
                = (Inr (LTable t # rs), m')"
    and p: "p = optional_number (tables m' t (LString ''period''))"
    and b: "b = optional_number (tables m' t (LString ''beginDate''))"
    and e: "e = optional_number (tables m' t (LString ''endDate''))"
    and name: "name = gen (objectCount w1)"
  shows "\<exists>L' w'. initialize call gen mn fn (Some ps) path r w =
           (\<not> dlt e b,
            r\<lparr>luaState := True, luaRotationObjectName := name, period := p,
              validRangeBegin := b, validRangeEnd := e\<rparr>,
            w')
         \<and> scriptContext w' = Some L'
         \<and> stack L' = stack L1
         \<and> mem L' = m'\<lparr>globals := (globals m')(name := LTable t)\<rparr>
         \<and> logger w' = (if dlt e b
                         then logger w1 @ [(Err, ''Bad script rotation: valid range end < begin\<newline>'', [])]
                         else logger w1)"
proof -
  from initialize_object_forward [where call = call and gen = gen and r = "r\<lparr>luaState := True\<rparr>"
         and w = w1, OF fn fac p b e name]
  obtain L' where
    ob: "initialize_object call gen fn ps path (r\<lparr>luaState := True\<rparr>) L1 w1 =
           (\<not> dlt e b,
            r\<lparr>luaState := True, luaRotationObjectName := name, period := p,
              validRangeBegin := b, validRangeEnd := e\<rparr>,
            L',
            (if dlt e b
             then logmsg Err ''Bad script rotation: valid range end < begin\<newline>'' []
                    (w1\<lparr>objectCount := Suc (objectCount w1)\<rparr>)
             else w1\<lparr>objectCount := Suc (objectCount w1)\<rparr>))"
    and st: "stack L' = stack L1"
    and me: "mem L' = m'\<lparr>globals := (globals m')(name := LTable t)\<rparr>"
    by auto
  show ?thesis
    by (simp add: initialize_def GetScriptedObjectContext_def ctx md ob Let_def st me logmsg_def)
qed

lemma demo_module_none:
  "initialize_module demo_call None demo_state demo_world = (True, demo_state, demo_world)"
  by (simp add: initialize_module_def)

lemma demo_globals:
  "globals (mem demo_state) ''makeSpin'' = LFunction 0"
  "globals (mem demo_state) ''badRange'' = LFunction 3"
  "globals (mem demo_state) ''nanRange'' = LFunction 4"
  "globals (mem demo_state) ''noOrientation'' = LFunction 6"
  "globals (mem demo_state) ''failing'' = LFunction 7"
  "globals (mem demo_state) ''nope'' = LNil"
  "globals (mem demo_state) ''require'' = LFunction 5"
  "nextTable (mem demo_state) = 0"
  "stack demo_state = []"
  by (simp_all add: demo_state_def demo_mem_def)

lemma demo_context: "scriptContext demo_world = Some demo_state" "objectCount demo_world = 0"
  "logger demo_world = []"
  by (simp_all add: demo_world_def)

lemma initialize_demo_factory:
  assumes fn: "globals (mem demo_state) fn = LFunction f"
    and fac: "\<And>args m. demo_call f args m = new_table m flds"
    and p: "p = optional_number (flds (LString ''period''))"
    and b: "b = optional_number (flds (LString ''beginDate''))"
    and e: "e = optional_number (flds (LString ''endDate''))"
  shows "\<exists>L' w'. initialize demo_call demo_gen None fn (Some ps) path r demo_world =
           (\<not> dlt e b,
            r\<lparr>luaState := True, luaRotationObjectName := demo_gen 0, period := p,
              validRangeBegin := b, validRangeEnd := e\<rparr>,
            w')
         \<and> scriptContext w' = Some L'
         \<and> stack L' = []
         \<and> globals (mem L') (demo_gen 0) = LTable 1
         \<and> tables (mem L') 1 = flds"
proof -
  let ?m = "mem (build_parameters (lua_getglobal demo_state fn) ps path)"
  have nt: "nextTable ?m = 1"
    using build_parameters_frame [of "lua_getglobal demo_state fn" ps path]
    by (simp add: getglobal_fields demo_globals)
  have c: "demo_call f [LTable (nextTable (mem demo_state))] ?m =
             (Inr (LTable 1 # []), ?m\<lparr>tables := (tables ?m)(1 := flds), nextTable := Suc 1\<rparr>)"
    by (simp add: fac new_table_def nt)
  from initialize_forward [where call = demo_call and gen = demo_gen and r = r,
         OF demo_context(1) demo_module_none fn c refl refl refl refl]
  obtain L' w' where
    i: "initialize demo_call demo_gen None fn (Some ps) path r demo_world =
          (\<not> dlt e b,
           r\<lparr>luaState := True, luaRotationObjectName := demo_gen 0, period := p,
             validRangeBegin := b, validRangeEnd := e\<rparr>,
           w')"
    and c': "scriptContext w' = Some L'" and s': "stack L' = stack demo_state"
    and m': "mem L' = ?m\<lparr>tables := (tables ?m)(1 := flds), nextTable := Suc 1,
                         globals := (globals ?m)(demo_gen 0 := LTable 1)\<rparr>"
    by (auto simp add: p b e demo_context)
  from i c' s' m' show ?thesis
    by (simp add: demo_globals)
qed

lemma lookup_bad:
  assumes "globals m name = LTable t" and "\<forall>g. tables m t (LString ''orientation'') \<noteq> LFunction g"
  shows "orientation_lookup m name = BadOrientation"
  using assms by (cases "tables m t (LString ''orientation'')") (simp_all add: orientation_lookup_def)

section \<open>The valid range\<close>

text \<open>
  C4, as stated: every model whose \<open>initialize\<close> succeeded has
  \<open>validRangeEnd >= validRangeBegin\<close>. It fails for a factory that returns
  \<open>{beginDate = 0/0}\<close>: the test \<open>validRangeEnd < validRangeBegin\<close> is false for a NaN,
  construction succeeds, and \<open>0 >= NaN\<close> is false too.
\<close>

theorem nan_range_counterexample:
  "fst (initialize demo_call demo_gen None ''nanRange'' (Some demo_params) ''/addon''
          (newRotation d_far_past) demo_world)
   \<and> getValidRange (fst (snd (initialize demo_call demo_gen None ''nanRange'' (Some demo_params)
          ''/addon'' (newRotation d_far_past) demo_world))) = (d_nan, d_zero)
   \<and> \<not> dge d_zero d_nan"
proof -
  have fac: "\<And>args m. demo_call 4 args m =
               new_table m ((\<lambda>k. LNil)(LString ''beginDate'' := LNumber d_nan))"
    by (simp add: demo_call_def)
  from initialize_demo_factory [OF demo_globals(3) fac refl refl refl,
         of demo_params "''/addon''" "newRotation d_far_past"]
  obtain w' where
    "initialize demo_call demo_gen None ''nanRange'' (Some demo_params) ''/addon''
       (newRotation d_far_past) demo_world =
     (\<not> dlt d_zero d_nan,
      (newRotation d_far_past)\<lparr>luaState := True, luaRotationObjectName := demo_gen 0,
         period := d_zero, validRangeBegin := d_nan, validRangeEnd := d_zero\<rparr>, w')"
    by (auto simp add: optional_number_def)
  moreover have "\<not> dlt d_zero d_nan" "\<not> dge d_zero d_nan"
    by (simp_all add: double_eval)
  ultimately show ?thesis by (simp add: getValidRange_def)
qed

text \<open>
  C4, amended. When the factory's table declares an \<open>endDate\<close> less than its
  \<open>beginDate\<close>, \<open>initialize\<close> returns false. When \<open>initialize\<close> returns true, the bounds of
  the model are the ones read from the registered table (absent or non-numeric fields
  read as 0, nothing is clamped), \<open>getValidRange\<close> returns exactly these two, and
  \<open>validRangeEnd < validRangeBegin\<close> is false; \<open>validRangeEnd >= validRangeBegin\<close> holds
  whenever neither bound is a NaN.
\<close>

theorem initialize_valid_range:
  "(scriptContext w = Some L \<and> initialize_module call mn L w = (True, L1, w1)
      \<and> globals (mem L1) fn = LFunction f
      \<and> call f [LTable (nextTable (mem L1))] (mem (build_parameters (lua_getglobal L1 fn) ps path))
           = (Inr (LTable t # rs), m')
      \<and> dlt (optional_number (tables m' t (LString ''endDate'')))
             (optional_number (tables m' t (LString ''beginDate'')))
    \<longrightarrow> \<not> fst (initialize call gen mn fn (Some ps) path r w))
   \<and> (initialize call gen mn fn pso path r w = (True, r', w')
    \<longrightarrow> (\<exists>L' t. scriptContext w' = Some L'
           \<and> globals (mem L') (luaRotationObjectName r') = LTable t
           \<and> validRangeBegin r' = optional_number (tables (mem L') t (LString ''beginDate''))
           \<and> validRangeEnd r' = optional_number (tables (mem L') t (LString ''endDate''))
           \<and> getValidRange r' = (validRangeBegin r', validRangeEnd r')
           \<and> \<not> dlt (validRangeEnd r') (validRangeBegin r')
           \<and> (\<not> is_nan (validRangeBegin r') \<and> \<not> is_nan (validRangeEnd r')
                \<longrightarrow> dge (validRangeEnd r') (validRangeBegin r'))))"
proof (intro conjI impI)
  assume h: "scriptContext w = Some L \<and> initialize_module call mn L w = (True, L1, w1)
      \<and> globals (mem L1) fn = LFunction f
      \<and> call f [LTable (nextTable (mem L1))] (mem (build_parameters (lua_getglobal L1 fn) ps path))
           = (Inr (LTable t # rs), m')
      \<and> dlt (optional_number (tables m' t (LString ''endDate'')))
             (optional_number (tables m' t (LString ''beginDate'')))"
  then have ctx: "scriptContext w = Some L" and md: "initialize_module call mn L w = (True, L1, w1)"
    and fn: "globals (mem L1) fn = LFunction f"
    and fac: "call f [LTable (nextTable (mem L1))] (mem (build_parameters (lua_getglobal L1 fn) ps path))
           = (Inr (LTable t # rs), m')"
    and lt: "dlt (optional_number (tables m' t (LString ''endDate'')))
             (optional_number (tables m' t (LString ''beginDate'')))"
    by simp_all
  from initialize_forward [where call = call and gen = gen and r = r,
         OF ctx md fn fac refl refl refl refl] lt
  show "\<not> fst (initialize call gen mn fn (Some ps) path r w)"
    by auto
next
  assume "initialize call gen mn fn pso path r w = (True, r', w')"
  from initialize_success [OF this]
  obtain L' t where "scriptContext w' = Some L'"
    "globals (mem L') (luaRotationObjectName r') = LTable t"
    "validRangeBegin r' = optional_number (tables (mem L') t (LString ''beginDate''))"
    "validRangeEnd r' = optional_number (tables (mem L') t (LString ''endDate''))"
    "\<not> dlt (validRangeEnd r') (validRangeBegin r')"
    by blast
  then show "\<exists>L' t. scriptContext w' = Some L'
           \<and> globals (mem L') (luaRotationObjectName r') = LTable t
           \<and> validRangeBegin r' = optional_number (tables (mem L') t (LString ''beginDate''))
           \<and> validRangeEnd r' = optional_number (tables (mem L') t (LString ''endDate''))
           \<and> getValidRange r' = (validRangeBegin r', validRangeEnd r')
           \<and> \<not> dlt (validRangeEnd r') (validRangeBegin r')
           \<and> (\<not> is_nan (validRangeBegin r') \<and> \<not> is_nan (validRangeEnd r')
                \<longrightarrow> dge (validRangeEnd r') (validRangeBegin r'))"
    using not_dlt_dge [of "validRangeEnd r'" "validRangeBegin r'"]
    by (intro exI [of _ L'] exI [of _ t]) (simp add: getValidRange_def)
qed

theorem initialize_valid_range_witness:
  "dlt d_ten d_twenty
   \<and> \<not> fst (initialize demo_call demo_gen None ''badRange'' (Some demo_params) ''/addon''
              (newRotation d_far_past) demo_world)
   \<and> fst (initialize demo_call demo_gen None ''makeSpin'' (Some demo_params) ''/addon''
              (newRotation d_far_past) demo_world)
   \<and> getValidRange (fst (snd (initialize demo_call demo_gen None ''makeSpin'' (Some demo_params)
              ''/addon'' (newRotation d_far_past) demo_world))) = (d_zero, d_zero)
   \<and> dge d_zero d_zero"
proof -
  let ?bad = "initialize demo_call demo_gen None ''badRange'' (Some demo_params) ''/addon''
              (newRotation d_far_past) demo_world"
  let ?good = "initialize demo_call demo_gen None ''makeSpin'' (Some demo_params) ''/addon''
              (newRotation d_far_past) demo_world"
  let ?m = "mem (build_parameters (lua_getglobal demo_state ''badRange'') demo_params ''/addon'')"
  have lt: "dlt d_ten d_twenty" and ge: "dge d_zero d_zero" and nn: "\<not> is_nan d_zero"
    and nl: "\<not> dlt d_zero d_zero"
    by (simp_all add: double_eval)
  have c: "demo_call 3 [LTable (nextTable (mem demo_state))] ?m =
             (Inr (LTable (nextTable ?m) # []),
              ?m\<lparr>tables := (tables ?m)(nextTable ?m := (\<lambda>k. LNil)(LString ''beginDate'' := LNumber d_twenty,
                                   LString ''endDate'' := LNumber d_ten)),
                 nextTable := Suc (nextTable ?m)\<rparr>)"
    by (simp add: demo_call_def new_table_def)
  from initialize_valid_range [where call = demo_call and gen = demo_gen and w = demo_world
         and L = demo_state and mn = None and ?L1.0 = demo_state and ?w1.0 = demo_world
         and fn = "''badRange''" and f = 3 and ps = demo_params and path = "''/addon''"
         and r = "newRotation d_far_past", THEN conjunct1, rule_format]
       demo_context(1) demo_module_none demo_globals(2) c lt
  have 1: "\<not> fst ?bad"
    by (simp add: optional_number_def)
  have fac: "\<And>args m. demo_call 0 args m =
               new_table m ((\<lambda>k. LNil)(LString ''period'' := LNumber d_one,
                                   LString ''orientation'' := LFunction 1))"
    by (simp add: demo_call_def)
  from initialize_demo_factory [OF demo_globals(1) fac refl refl refl,
         of demo_params "''/addon''" "newRotation d_far_past"] nl
  obtain w' where g: "?good = (True,
      (newRotation d_far_past)\<lparr>luaState := True, luaRotationObjectName := demo_gen 0,
         period := d_one, validRangeBegin := d_zero, validRangeEnd := d_zero\<rparr>, w')"
    by (auto simp add: optional_number_def)
  from initialize_valid_range [where call = demo_call and gen = demo_gen and w = demo_world
         and mn = None and fn = "''makeSpin''" and pso = "Some demo_params" and path = "''/addon''"
         and r = "newRotation d_far_past", THEN conjunct2, rule_format, OF g] nn
  have 2: "getValidRange (fst (snd ?good)) = (d_zero, d_zero)" and 3: "fst ?good"
    by (auto simp add: g)
  from lt 1 2 3 ge show ?thesis by simp
qed

section \<open>A table without a usable orientation\<close>

text \<open>
  C10. \<open>initialize\<close> does not look at the \<open>orientation\<close> field: when the module step
  passes, the factory is a function and returns a table whose range is not inverted,
  construction succeeds also when that table has no callable \<open>orientation\<close>. On the
  model so constructed every evaluation in a row, at any times, returns the cached value
  the model started with, and the model is unchanged.
\<close>

theorem initialize_ignores_orientation:
  assumes ctx: "scriptContext w = Some L"
    and md: "initialize_module call mn L w = (True, L1, w1)"
    and fn: "globals (mem L1) fn = LFunction f"
    and fac: "call f [LTable (nextTable (mem L1))] (mem (build_parameters (lua_getglobal L1 fn) ps path))
                = (Inr (LTable t # rs), m')"
    and rng: "\<not> dlt (optional_number (tables m' t (LString ''endDate'')))
                    (optional_number (tables m' t (LString ''beginDate'')))"
    and bad: "\<forall>g. tables m' t (LString ''orientation'') \<noteq> LFunction g"
  shows "\<exists>r' w'. initialize call gen mn fn (Some ps) path r w = (True, r', w')
           \<and> lastOrientation r' = lastOrientation r
           \<and> (\<forall>ts. \<exists>w''. spin_all call cvt ts r' w' =
                  Some (replicate (length ts) (lastOrientation r), r', w''))"
proof -
  let ?name = "gen (objectCount w1)"
  let ?r' = "r\<lparr>luaState := True, luaRotationObjectName := ?name,
                period := optional_number (tables m' t (LString ''period'')),
                validRangeBegin := optional_number (tables m' t (LString ''beginDate'')),
                validRangeEnd := optional_number (tables m' t (LString ''endDate''))\<rparr>"
  from initialize_forward [where call = call and gen = gen and r = r,
         OF ctx md fn fac refl refl refl refl] rng
  obtain L' w' where i: "initialize call gen mn fn (Some ps) path r w = (True, ?r', w')"
    and c': "scriptContext w' = Some L'"
    and m': "mem L' = m'\<lparr>globals := (globals m')(?name := LTable t)\<rparr>"
    by auto
  have lk: "orientation_lookup (mem L') (luaRotationObjectName ?r') = BadOrientation"
    by (rule lookup_bad [of _ _ t]) (simp_all add: m' bad)
  have ls: "luaState ?r'" by simp
  have "\<exists>w''. spin_all call cvt ts ?r' w' =
                  Some (replicate (length ts) (lastOrientation r), ?r', w'')" for ts
    using spin_all_no_callable [OF ls c' disjI2 [OF lk], of call cvt ts] by simp
  with i show ?thesis by auto
qed

theorem initialize_ignores_orientation_witness:
  "fst (initialize demo_call demo_gen None ''noOrientation'' (Some demo_params) ''/addon''
          (newRotation d_far_past) demo_world)
   \<and> (\<exists>r' w' w''. initialize demo_call demo_gen None ''noOrientation'' (Some demo_params) ''/addon''
          (newRotation d_far_past) demo_world = (True, r', w')
        \<and> spin_all demo_call demo_cvt [d_zero, d_one, d_one] r' w' =
            Some ([Identity, Identity, Identity], r', w''))"
proof -
  let ?m = "mem (build_parameters (lua_getglobal demo_state ''noOrientation'') demo_params ''/addon'')"
  have c: "demo_call 6 [LTable (nextTable (mem demo_state))] ?m =
             (Inr (LTable (nextTable ?m) # []),
              ?m\<lparr>tables := (tables ?m)(nextTable ?m := (\<lambda>k. LNil)),
                 nextTable := Suc (nextTable ?m)\<rparr>)"
    by (simp add: demo_call_def new_table_def)
  have nl: "\<not> dlt d_zero d_zero" by (simp add: double_eval)
  from initialize_ignores_orientation [where call = demo_call and gen = demo_gen
         and cvt = demo_cvt and r = "newRotation d_far_past",
         OF demo_context(1) demo_module_none demo_globals(4) c]
  obtain r' w' where i: "initialize demo_call demo_gen None ''noOrientation'' (Some demo_params) ''/addon''
          (newRotation d_far_past) demo_world = (True, r', w')"
    and s: "\<forall>ts. \<exists>w''. spin_all demo_call demo_cvt ts r' w' =
                  Some (replicate (length ts) (lastOrientation (newRotation d_far_past)), r', w'')"
    using nl by (auto simp add: optional_number_def)
  from s [rule_format, of "[d_zero, d_one, d_one]"]
  obtain w'' where "spin_all demo_call demo_cvt [d_zero, d_one, d_one] r' w' =
            Some ([Identity, Identity, Identity], r', w'')"
    by (auto simp add: newRotation_def)
  with i show ?thesis by auto
qed

section \<open>Stack balance and registrations\<close>

lemma spin_stack_balanced:
  assumes "spin call cvt r tjd w = Some (q, r', w')"
  shows "engine_stack w' = engine_stack w"
proof (cases "dne tjd (lastTime r) \<or> \<not> cacheable r")
  case False
  with assms show ?thesis by (simp add: spin_cached dne_def)
next
  case miss: True
  show ?thesis
  proof (cases "luaState r \<and> scriptContext w \<noteq> None")
    case False
    with spin_null [OF miss, of w call cvt] assms show ?thesis by auto
  next
    case True
    then obtain L where ls: "luaState r" and ctx: "scriptContext w = Some L" by auto
    show ?thesis
    proof (cases "orientation_lookup (mem L) (luaRotationObjectName r)")
      case Vanished
      with spin_vanished [OF miss ls ctx, of call cvt] assms ctx show ?thesis
        by (auto simp add: engine_stack_def)
    next
      case BadOrientation
      with spin_bad_orientation [OF miss ls ctx, of call cvt] assms ctx show ?thesis
        by (auto simp add: engine_stack_def)
    next
      case (Callable t f)
      obtain res m' where c: "call f [LTable t, LNumber tjd] (mem L) = (res, m')"
        by (cases "call f [LTable t, LNumber tjd] (mem L)")
      show ?thesis
      proof (cases res)
        case (Inl err)
        with c spin_call_error [where call = call and cvt = cvt, OF miss ls ctx Callable] assms ctx
        show ?thesis by (auto simp add: engine_stack_def)
      next
        case (Inr rs)
        with c spin_call_ok [where call = call and cvt = cvt, OF miss ls ctx Callable _ refl refl]
          assms ctx
        show ?thesis by (auto simp add: engine_stack_def)
      qed
    qed
  qed
qed

lemma initialize_module_skipped:
  "mn = None \<or> mn = Some [] \<Longrightarrow> initialize_module call mn L w = (True, L, w)"
  by (auto simp add: initialize_module_def)

lemma initialize_failure_stack_no_module:
  assumes "mn = None \<or> mn = Some []"
    and "initialize call gen mn fn ps path r w = (False, r', w')"
  shows "engine_stack w' = engine_stack w"
proof (cases ps)
  case None
  with assms show ?thesis by (simp add: initialize_def)
next
  case (Some params)
  show ?thesis
  proof (cases "scriptContext w")
    case None
    with assms Some show ?thesis
      by (auto simp add: initialize_def GetScriptedObjectContext_def logmsg_def engine_stack_def)
  next
    case (Some L)
    obtain res r1 L2 w2 where
      ob: "initialize_object call gen fn params path (r\<lparr>luaState := True\<rparr>) L w = (res, r1, L2, w2)"
      by (cases "initialize_object call gen fn params path (r\<lparr>luaState := True\<rparr>) L w")
    from assms \<open>ps = Some params\<close> Some ob
    have "\<not> res" and w': "w' = w2\<lparr>scriptContext := Some L2\<rparr>"
      by (auto simp add: initialize_def GetScriptedObjectContext_def
            initialize_module_skipped [OF assms(1)] Let_def)
    with initialize_object_failure_stack [of call gen fn params path "r\<lparr>luaState := True\<rparr>" L w r1 L2 w2] ob
    have "stack L2 = stack L" by simp
    with w' Some show ?thesis by (simp add: engine_stack_def)
  qed
qed

lemma demo_module_loaded:
  "\<exists>L1. initialize_module demo_call (Some ''celestia_extras'') demo_state demo_world = (True, L1, demo_world)
        \<and> stack L1 = [LBoolean True] \<and> mem L1 = mem demo_state"
  by (simp add: initialize_module_def Let_def lua_defs demo_globals demo_call_def adjust_def)

text \<open>
  C3. Two runs of \<open>initialize\<close> that return false and do not leave the engine as they
  found it. In the first the module loads and the factory name is not a function: the
  value returned by \<open>require\<close> stays on the stack. In the second the factory declares
  \<open>beginDate = 20, endDate = 10\<close>: the table stays registered under the generated name.
\<close>

theorem initialize_leaks:
  "\<not> fst (initialize demo_call demo_gen (Some ''celestia_extras'') ''nope'' (Some demo_params)
             ''/addon'' (newRotation d_far_past) demo_world)
   \<and> engine_stack demo_world = []
   \<and> engine_stack (snd (snd (initialize demo_call demo_gen (Some ''celestia_extras'') ''nope''
        (Some demo_params) ''/addon'' (newRotation d_far_past) demo_world))) = [LBoolean True]
   \<and> \<not> fst (initialize demo_call demo_gen None ''badRange'' (Some demo_params)
             ''/addon'' (newRotation d_far_past) demo_world)
   \<and> global_value demo_world (demo_gen 0) = LNil
   \<and> global_value (snd (snd (initialize demo_call demo_gen None ''badRange'' (Some demo_params)
        ''/addon'' (newRotation d_far_past) demo_world))) (demo_gen 0) = LTable 1"
proof -
  let ?leak = "initialize demo_call demo_gen (Some ''celestia_extras'') ''nope'' (Some demo_params)
             ''/addon'' (newRotation d_far_past) demo_world"
  let ?bad = "initialize demo_call demo_gen None ''badRange'' (Some demo_params)
             ''/addon'' (newRotation d_far_past) demo_world"
  from demo_module_loaded obtain L1 where
    md: "initialize_module demo_call (Some ''celestia_extras'') demo_state demo_world = (True, L1, demo_world)"
    and s1: "stack L1 = [LBoolean True]" and m1: "mem L1 = mem demo_state"
    by blast
  have nf: "\<not> lua_isfunction (lua_getglobal L1 ''nope'') (Suc 0)"
    by (simp add: lua_isfunction_def at_index_def getglobal_fields m1 demo_globals)
  have ob: "initialize_object demo_call demo_gen ''nope'' demo_params ''/addon''
              ((newRotation d_far_past)\<lparr>luaState := True\<rparr>) L1 demo_world =
            (False, (newRotation d_far_past)\<lparr>luaState := True\<rparr>,
             lua_pop (lua_getglobal L1 ''nope'') 1,
             logmsg Err ''No Lua function named {} found.\<newline>'' [Text ''nope''] demo_world)"
    by (simp add: initialize_object_def Let_def nf)
  have leak: "\<not> fst ?leak \<and> engine_stack (snd (snd ?leak)) = [LBoolean True]"
    by (simp add: initialize_def GetScriptedObjectContext_def demo_context md ob Let_def
          engine_stack_def pop_fields getglobal_fields s1)
  have fac: "\<And>args m. demo_call 3 args m =
               new_table m ((\<lambda>k. LNil)(LString ''beginDate'' := LNumber d_twenty,
                                   LString ''endDate'' := LNumber d_ten))"
    by (simp add: demo_call_def)
  have lt: "dlt d_ten d_twenty" by (simp add: double_eval)
  from initialize_demo_factory [OF demo_globals(2) fac refl refl refl,
         of demo_params "''/addon''" "newRotation d_far_past"] lt
  have bad: "\<not> fst ?bad \<and> global_value (snd (snd ?bad)) (demo_gen 0) = LTable 1"
    by (auto simp add: optional_number_def global_value_def)
  have "engine_stack demo_world = []" "global_value demo_world (demo_gen 0) = LNil"
    by (simp_all add: engine_stack_def global_value_def demo_context demo_globals
          demo_state_def demo_mem_def demo_gen_def)
  with leak bad show ?thesis by simp
qed

end
